theory Spec2Isabelle
  imports Main "HOL-Library.Word"
begin

unbundle bit_operations_syntax

section \<open>Machine types\<close>

type_synonym byte = "8 word"
type_synonym u32 = "32 word"
type_synonym u64 = "64 word"

text \<open>
  Go's \<open>int\<close> and \<open>int64\<close> are 64-bit two's complement integers on the platforms the
  package targets; both are \<open>64 word\<close>, read with \<open>sint\<close> and compared with the signed
  orders \<open>\<le>s\<close> and \<open><s\<close>. Go's \<open>uint\<close> is the same word read with \<open>unat\<close>. A conversion
  between integer types of different width is \<open>ucast\<close> (from an unsigned type) and a
  conversion between \<open>int\<close> and \<open>uint64\<close> keeps the bits.
\<close>

type_synonym i64 = "64 word"

section \<open>Results, errors and panics\<close>

text \<open>
  Go errors are compared by identity (\<open>err == io.EOF\<close>). The package-level error values
  of decoder.go and \<open>io.EOF\<close> are constructors of their own; every value made by
  \<open>errors.New\<close> or \<open>fmt.Errorf\<close> is \<open>errors_New\<close> of its message, which never equals one
  of the package-level values. \<open>Error\<close> is the method \<open>err.Error()\<close>, the text that the
  verb \<open>%s\<close> prints.
\<close>

datatype error =
    io_EOF
  | eofDecoded
  | errWrongTermination
  | errUnexpectedEOS
  | errors_New string

fun Error :: "error \<Rightarrow> string" where
  "Error io_EOF = ''EOF''"
| "Error eofDecoded = ''EOF of decoded stream''"
| "Error errWrongTermination = ''range decoder doesn't support termination''"
| "Error errUnexpectedEOS = ''unexpected end of stream marker''"
| "Error (errors_New s) = s"

text \<open>\<open>fmt.Errorf("LZMA - %s", err)\<close>, as \<open>Decoder.Read\<close> calls it.\<close>

definition fmt_Errorf_LZMA :: "error \<Rightarrow> error" where
  "fmt_Errorf_LZMA err = errors_New (''LZMA - '' @ Error err)"

text \<open>A call either returns or panics (an index out of range, an explicit \<open>panic\<close>).\<close>

datatype 'a go = Return 'a | Panic string

section \<open>The state machine of decoder.go\<close>

text \<open>
  The four methods \<open>updateStateLiteral\<close>, \<open>updateStateMatch\<close>, \<open>updateStateRep\<close> and
  \<open>updateStateShortRep\<close> of \<open>Decoder\<close> read and write only the field \<open>state\<close>
  (a \<open>uint32\<close>), so each is a function on that field. Subtraction on \<open>uint32\<close> wraps,
  as it does on \<open>32 word\<close>.
\<close>

definition updateStateLiteral :: "u32 \<Rightarrow> u32" where
  "updateStateLiteral s =
     (if s < 4 then 0
      else if s < 10 then s - 3
      else s - 6)"

definition updateStateMatch :: "u32 \<Rightarrow> u32" where
  "updateStateMatch s = (if s < 7 then 7 else 10)"

definition updateStateRep :: "u32 \<Rightarrow> u32" where
  "updateStateRep s = (if s < 7 then 8 else 11)"

definition updateStateShortRep :: "u32 \<Rightarrow> u32" where
  "updateStateShortRep s = (if s < 7 then 9 else 11)"

section \<open>The decoder of decoder.go\<close>

subsection \<open>Declarations the decoder uses\<close>

text \<open>
  Modelled from the spec: the constants \<open>maxPosBits\<close>, \<open>minLength\<close> and \<open>minDistance\<close>
  are declared outside decoder.go. The specification gives \<open>max_pos_bits = 4\<close>,
  \<open>min_length = 2\<close> and \<open>min_distance = 1\<close>.
\<close>

definition maxPosBits :: nat where
  "maxPosBits = 4"

definition minLength :: i64 where
  "minLength = 2"

definition minDistance :: i64 where
  "minDistance = 1"

text \<open>\<open>const noUnpackLen uint64 = 1<<64 - 1\<close>\<close>

definition noUnpackLen :: u64 where
  "noUnpackLen = 2 ^ 64 - 1"

text \<open>
  Modelled from the spec: the type \<open>Properties\<close> is declared outside decoder.go. The
  decoder reads its fields \<open>LC\<close>, \<open>LP\<close>, \<open>PB\<close> (converted with \<open>uint(...)\<close>) and
  \<open>DictLen\<close> (converted with \<open>int(...)\<close>).
\<close>

record Properties =
  LC :: i64
  LP :: i64
  PB :: i64
  DictLen :: u32

text \<open>
  Modelled from the spec: the interface \<open>operation\<close> and its implementations \<open>lit\<close> and
  \<open>rep\<close> are declared outside decoder.go. The decoder builds \<open>lit{s}\<close> and
  \<open>rep{length: .., distance: ..}\<close>; the specification gives the length of an operation
  (a literal counts one byte, every other operation its length). The constructors are
  \<open>lit_op\<close> and \<open>rep_op\<close> since the decoder has a field called \<open>rep\<close>.
\<close>

datatype operation =
    lit_op byte
  | rep_op (length_op: i64) (distance_op: i64)

fun Len :: "operation \<Rightarrow> i64" where
  "Len (lit_op s) = 1"
| "Len (rep_op l dist) = l"

text \<open>
  Modelled from the spec: the type \<open>decoderDict\<close> is declared outside decoder.go. The
  decoder reads and writes its fields \<open>eof\<close> (the sticky flag), \<open>total\<close> (the number of
  bytes ever written, called \<open>total_dd\<close> here) and \<open>b\<close> (called \<open>b_dd\<close> here). Whatever
  else the dictionary holds is the extension of the record.
\<close>

record decoderDict =
  eof :: bool
  total_dd :: i64
  b_dd :: i64

text \<open>
  The methods whose bodies are outside decoder.go are parameters of the model: every
  theorem below holds for each implementation of them. A Go method that returns
  \<open>(value, err)\<close> and changes its receiver and the range decoder is a function that
  returns the pair and the new receiver and range decoder. The type variables stand for
  \<open>prob\<close> (\<open>'p\<close>), \<open>rangeDecoder\<close> (\<open>'r\<close>), \<open>literalCodec\<close> (\<open>'lit\<close>), \<open>lengthCodec\<close>
  (\<open>'len\<close>), \<open>distCodec\<close> (\<open>'dist\<close>) and the rest of \<open>decoderDict\<close> (\<open>'z\<close>).
\<close>

record ('p, 'r, 'lit, 'len, 'dist, 'z) methods =
  prob_Decode :: "'p \<Rightarrow> 'r \<Rightarrow> (u32 \<times> error option) \<times> 'p \<times> 'r"
  possiblyAtEnd :: "'r \<Rightarrow> bool"
  literalCodec_Decode ::
    "'lit \<Rightarrow> 'r \<Rightarrow> u32 \<Rightarrow> byte \<Rightarrow> u32 \<Rightarrow> (byte \<times> error option) \<times> 'lit \<times> 'r"
  lengthCodec_Decode :: "'len \<Rightarrow> 'r \<Rightarrow> u32 \<Rightarrow> (u32 \<times> error option) \<times> 'len \<times> 'r"
  distCodec_Decode :: "'dist \<Rightarrow> u32 \<Rightarrow> 'r \<Rightarrow> (u32 \<times> error option) \<times> 'dist \<times> 'r"
  getByte :: "'z decoderDict_scheme \<Rightarrow> i64 \<Rightarrow> byte"
  readable :: "'z decoderDict_scheme \<Rightarrow> i64"
  decoderDict_Read ::
    "'z decoderDict_scheme \<Rightarrow> nat \<Rightarrow> (byte list \<times> error option) \<times> 'z decoderDict_scheme"
  applyDecoderDict ::
    "operation \<Rightarrow> 'z decoderDict_scheme \<Rightarrow> error option \<times> 'z decoderDict_scheme"

subsection \<open>The type Decoder\<close>

text \<open>
  The arrays of probabilities are lists, created with 192 and 12 elements; an index
  outside a list panics, as an index outside the array does. The array \<open>rep [4]uint32\<close>
  is the tuple \<open>(rep[0], rep[1], rep[2], rep[3])\<close>.
\<close>

record ('p, 'r, 'lit, 'len, 'dist, 'z) Decoder =
  properties :: Properties
  unpackLen :: u64
  decodedLen :: u64
  dict :: "'z decoderDict_scheme"
  state :: u32
  posBitMask :: u32
  rd :: 'r
  isMatch :: "'p list"
  isRep :: "'p list"
  isRepG0 :: "'p list"
  isRepG1 :: "'p list"
  isRepG2 :: "'p list"
  isRepG0Long :: "'p list"
  rep :: "u32 \<times> u32 \<times> u32 \<times> u32"
  litDecoder :: 'lit
  lengthDecoder :: 'len
  repLengthDecoder :: 'len
  distDecoder :: 'dist

text \<open>\<open>d.rep[i]\<close> and \<open>d.rep[i] = v\<close> for the constant indices 0 to 3.\<close>

fun rep_get :: "u32 \<times> u32 \<times> u32 \<times> u32 \<Rightarrow> nat \<Rightarrow> u32" where
  "rep_get (a, b, c, e) i =
     (if i = 0 then a else if i = 1 then b else if i = 2 then c else e)"

fun rep_set :: "u32 \<times> u32 \<times> u32 \<times> u32 \<Rightarrow> nat \<Rightarrow> u32 \<Rightarrow> u32 \<times> u32 \<times> u32 \<times> u32" where
  "rep_set (a, b, c, e) i v =
     (if i = 0 then (v, b, c, e) else if i = 1 then (a, v, c, e)
      else if i = 2 then (a, b, v, e) else (a, b, c, v))"

subsection \<open>decodeLiteral\<close>

text \<open>
  \<open>litState := ((uint32(d.dict.total) & ((1 << lp) - 1)) << lc) |
  (uint32(prevByte) >> (8 - lc))\<close>, with \<open>lp\<close> and \<open>lc\<close> of type \<open>uint\<close>: the constant 1
  is a \<open>uint32\<close>, \<open>8 - lc\<close> wraps in \<open>uint\<close>, and a shift by 32 or more gives 0.
\<close>

definition litState :: "i64 \<Rightarrow> i64 \<Rightarrow> i64 \<Rightarrow> byte \<Rightarrow> u32" where
  "litState lp lc tot prevByte =
     push_bit (unat lc) ((ucast tot :: u32) AND (push_bit (unat lp) 1 - 1))
       OR drop_bit (unat (8 - lc)) (ucast prevByte :: u32)"

definition decodeLiteral ::
  "('p, 'r, 'lit, 'len, 'dist, 'z) methods \<Rightarrow> ('p, 'r, 'lit, 'len, 'dist, 'z) Decoder
    \<Rightarrow> (error + operation) \<times> ('p, 'r, 'lit, 'len, 'dist, 'z) Decoder" where
  "decodeLiteral env d =
     (let prevByte = getByte env (dict d) 1;
          lp = LP (properties d);
          lc = LC (properties d);
          ls = litState lp lc (total_dd (dict d)) prevByte;
          match = getByte env (dict d) (ucast (rep_get (rep d) 0) + 1)
      in (case literalCodec_Decode env (litDecoder d) (rd d) (state d) match ls of
            ((s, err), lit', r') \<Rightarrow>
              (let d = d\<lparr>litDecoder := lit', rd := r'\<rparr>
               in (case err of
                     Some e \<Rightarrow> (Inl e, d)
                   | None \<Rightarrow> (Inr (lit_op s), d)))))"

subsection \<open>decodeOp\<close>

text \<open>\<open>d.isMatch[i].Decode(d.rd)\<close> for one of the arrays of probabilities.\<close>

definition probDecode ::
  "('p, 'r, 'lit, 'len, 'dist, 'z) methods \<Rightarrow> 'p list \<Rightarrow> nat \<Rightarrow> 'r
    \<Rightarrow> ((u32 \<times> error option) \<times> 'p list \<times> 'r) go" where
  "probDecode env ps i r =
     (if i < length ps
      then (case prob_Decode env (ps ! i) r of
              (res, p', r') \<Rightarrow> Return (res, ps[i := p'], r'))
      else Panic ''index out of range'')"

text \<open>
  The branch of a simple match, lines 298 to 320 of decoder.go. The right-hand sides of
  \<open>d.rep[3], d.rep[2], d.rep[1] = d.rep[2], d.rep[1], d.rep[0]\<close> are read before any
  element is written. The assignment \<open>d.rep[0], err = d.distDecoder.Decode(l, d.rd)\<close>
  stores the value before \<open>err\<close> is tested.
\<close>

definition decodeOp_simpleMatch ::
  "('p, 'r, 'lit, 'len, 'dist, 'z) methods \<Rightarrow> u32 \<Rightarrow> ('p, 'r, 'lit, 'len, 'dist, 'z) Decoder
    \<Rightarrow> (error + operation) \<times> ('p, 'r, 'lit, 'len, 'dist, 'z) Decoder" where
  "decodeOp_simpleMatch env posState d =
     (let r = rep d;
          d = d\<lparr>rep := rep_set (rep_set (rep_set r 3 (rep_get r 2)) 2 (rep_get r 1))
                          1 (rep_get r 0)\<rparr>;
          d = d\<lparr>state := updateStateMatch (state d)\<rparr>
      in (case lengthCodec_Decode env (lengthDecoder d) (rd d) posState of
            ((l, err), len', r') \<Rightarrow>
              (let d = d\<lparr>lengthDecoder := len', rd := r'\<rparr>
               in (case err of
                     Some e \<Rightarrow> (Inl e, d)
                   | None \<Rightarrow>
                       (case distCodec_Decode env (distDecoder d) l (rd d) of
                          ((dist, err), dist', r') \<Rightarrow>
                            (let d = d\<lparr>distDecoder := dist', rd := r',
                                       rep := rep_set (rep d) 0 dist\<rparr>
                             in (case err of
                                   Some e \<Rightarrow> (Inl e, d)
                                 | None \<Rightarrow>
                                     if rep_get (rep d) 0 = 0xffffffff
                                     then if \<not> possiblyAtEnd env (rd d)
                                          then (Inl errWrongTermination, d)
                                          else (Inl eofDecoded, d)
                                     else (Inr (rep_op (ucast l + minLength)
                                                  (ucast (rep_get (rep d) 0) + minDistance)),
                                           d))))))))"

text \<open>The end of the rep branch, lines 362 to 368 of decoder.go.\<close>

definition decodeOp_repLength ::
  "('p, 'r, 'lit, 'len, 'dist, 'z) methods \<Rightarrow> u32 \<Rightarrow> u32
    \<Rightarrow> ('p, 'r, 'lit, 'len, 'dist, 'z) Decoder
    \<Rightarrow> (error + operation) \<times> ('p, 'r, 'lit, 'len, 'dist, 'z) Decoder" where
  "decodeOp_repLength env posState dist d =
     (case lengthCodec_Decode env (repLengthDecoder d) (rd d) posState of
        ((l, err), len', r') \<Rightarrow>
          (let d = d\<lparr>repLengthDecoder := len', rd := r'\<rparr>
           in (case err of
                 Some e \<Rightarrow> (Inl e, d)
               | None \<Rightarrow>
                   (Inr (rep_op (ucast l + minLength) (ucast dist + minDistance)),
                    d\<lparr>state := updateStateRep (state d)\<rparr>))))"

text \<open>
  The choice among rep1, rep2 and rep3, lines 340 to 360 of decoder.go, entered when
  \<open>isRepG0\<close> decoded a bit other than 0. It returns \<open>dist\<close> and the decoder with the
  history updated. \<open>decodeOp_repShift\<close> is lines 359 and 360, which end all three cases.
\<close>

definition decodeOp_repShift ::
  "u32 \<Rightarrow> ('p, 'r, 'lit, 'len, 'dist, 'z) Decoder \<Rightarrow> ('p, 'r, 'lit, 'len, 'dist, 'z) Decoder" where
  "decodeOp_repShift dist d =
     (let d = d\<lparr>rep := rep_set (rep d) 1 (rep_get (rep d) 0)\<rparr>
      in d\<lparr>rep := rep_set (rep d) 0 dist\<rparr>)"

definition decodeOp_repG1 ::
  "('p, 'r, 'lit, 'len, 'dist, 'z) methods \<Rightarrow> ('p, 'r, 'lit, 'len, 'dist, 'z) Decoder
    \<Rightarrow> ((error + u32) \<times> ('p, 'r, 'lit, 'len, 'dist, 'z) Decoder) go" where
  "decodeOp_repG1 env d =
     (case probDecode env (isRepG1 d) (unat (state d)) (rd d) of
        Panic s \<Rightarrow> Panic s
      | Return ((b, err), ps, r') \<Rightarrow>
          (let d = d\<lparr>isRepG1 := ps, rd := r'\<rparr>
           in (case err of
                 Some e \<Rightarrow> Return (Inl e, d)
               | None \<Rightarrow>
                   if b = 0
                   then (let dist = rep_get (rep d) 1
                         in Return (Inr dist, decodeOp_repShift dist d))
                   else (case probDecode env (isRepG2 d) (unat (state d)) (rd d) of
                           Panic s \<Rightarrow> Panic s
                         | Return ((b, err), ps, r') \<Rightarrow>
                             (let d = d\<lparr>isRepG2 := ps, rd := r'\<rparr>
                              in (case err of
                                    Some e \<Rightarrow> Return (Inl e, d)
                                  | None \<Rightarrow>
                                      (let (dist, d) =
                                             (if b = 0
                                              then (rep_get (rep d) 2, d)
                                              else (rep_get (rep d) 3,
                                                    d\<lparr>rep := rep_set (rep d) 3
                                                                 (rep_get (rep d) 2)\<rparr>));
                                           d = d\<lparr>rep := rep_set (rep d) 2 (rep_get (rep d) 1)\<rparr>
                                       in Return (Inr dist, decodeOp_repShift dist d))))))))"

text \<open>The rep branch, lines 322 to 368 of decoder.go.\<close>

definition decodeOp_rep ::
  "('p, 'r, 'lit, 'len, 'dist, 'z) methods \<Rightarrow> u32 \<Rightarrow> u32
    \<Rightarrow> ('p, 'r, 'lit, 'len, 'dist, 'z) Decoder
    \<Rightarrow> ((error + operation) \<times> ('p, 'r, 'lit, 'len, 'dist, 'z) Decoder) go" where
  "decodeOp_rep env posState state2 d =
     (case probDecode env (isRepG0 d) (unat (state d)) (rd d) of
        Panic s \<Rightarrow> Panic s
      | Return ((b, err), ps, r') \<Rightarrow>
          (let d = d\<lparr>isRepG0 := ps, rd := r'\<rparr>
           in (case err of
                 Some e \<Rightarrow> Return (Inl e, d)
               | None \<Rightarrow>
                   if b = 0
                   then (case probDecode env (isRepG0Long d) (unat state2) (rd d) of
                           Panic s \<Rightarrow> Panic s
                         | Return ((b, err), ps, r') \<Rightarrow>
                             (let d = d\<lparr>isRepG0Long := ps, rd := r'\<rparr>
                              in (case err of
                                    Some e \<Rightarrow> Return (Inl e, d)
                                  | None \<Rightarrow>
                                      if b = 0
                                      then Return
                                             (Inr (rep_op 1 (ucast (rep_get (rep d) 0) + minDistance)),
                                              d\<lparr>state := updateStateShortRep (state d)\<rparr>)
                                      else Return
                                             (decodeOp_repLength env posState (rep_get (rep d) 0) d))))
                   else (case decodeOp_repG1 env d of
                           Panic s \<Rightarrow> Panic s
                         | Return (Inl e, d) \<Rightarrow> Return (Inl e, d)
                         | Return (Inr dist, d) \<Rightarrow>
                             Return (decodeOp_repLength env posState dist d)))))"

text \<open>\<open>decodeOp\<close>, lines 272 to 369 of decoder.go.\<close>

definition decodeOp ::
  "('p, 'r, 'lit, 'len, 'dist, 'z) methods \<Rightarrow> ('p, 'r, 'lit, 'len, 'dist, 'z) Decoder
    \<Rightarrow> ((error + operation) \<times> ('p, 'r, 'lit, 'len, 'dist, 'z) Decoder) go" where
  "decodeOp env d =
     (let posState = (ucast (total_dd (dict d)) :: u32) AND posBitMask d;
          state2 = push_bit maxPosBits (state d) OR posState
      in (case probDecode env (isMatch d) (unat state2) (rd d) of
            Panic s \<Rightarrow> Panic s
          | Return ((b, err), ps, r') \<Rightarrow>
              (let d = d\<lparr>isMatch := ps, rd := r'\<rparr>
               in (case err of
                     Some e \<Rightarrow> Return (Inl e, d)
                   | None \<Rightarrow>
                       if b = 0
                       then (case decodeLiteral env d of
                               (Inl e, d) \<Rightarrow> Return (Inl e, d)
                             | (Inr op, d) \<Rightarrow>
                                 Return (Inr op, d\<lparr>state := updateStateLiteral (state d)\<rparr>))
                       else (case probDecode env (isRep d) (unat (state d)) (rd d) of
                               Panic s \<Rightarrow> Panic s
                             | Return ((b, err), ps, r') \<Rightarrow>
                                 (let d = d\<lparr>isRep := ps, rd := r'\<rparr>
                                  in (case err of
                                        Some e \<Rightarrow> Return (Inl e, d)
                                      | None \<Rightarrow>
                                          if b = 0
                                          then Return (decodeOp_simpleMatch env posState d)
                                          else decodeOp_rep env posState state2 d)))))))"

subsection \<open>What decodeOp leaves unchanged\<close>

text \<open>
  \<open>decodeOp\<close> writes neither \<open>decodedLen\<close> nor \<open>unpackLen\<close> nor the dictionary, and the
  operation it returns has a length other than 0 as a \<open>uint64\<close>. The termination of the
  loop of \<open>fill\<close> rests on these facts.
\<close>

lemma decodeLiteral_frame:
  "decodeLiteral env d = (res, d') \<Longrightarrow> decodedLen d' = decodedLen d \<and> unpackLen d' = unpackLen d \<and> dict d' = dict d"
  by (auto simp: decodeLiteral_def Let_def split: prod.splits option.splits)

lemma decodeLiteral_Len:
  "decodeLiteral env d = (Inr op, d') \<Longrightarrow> Len op = 1"
  by (auto simp: decodeLiteral_def Let_def split: prod.splits option.splits)

lemma simpleMatch_frame:
  "decodeOp_simpleMatch env ps d = (res, d') \<Longrightarrow> decodedLen d' = decodedLen d \<and> unpackLen d' = unpackLen d \<and> dict d' = dict d"
  by (auto simp: decodeOp_simpleMatch_def Let_def split: prod.splits option.splits if_splits)

lemma unat_ucast_u32: "unat (ucast (l :: u32) :: i64) = unat l"
  by (simp add: unsigned_ucast_eq take_bit_nat_eq_self unsigned_less [of l, simplified] less_trans [OF unsigned_less])

lemma ucast_plus2_ne0: "(ucast (l :: u32) :: i64) + 2 \<noteq> 0"
proof -
  have "unat l < 2 ^ 32"
    using unsigned_less [of l] by simp
  then have "unat ((ucast l :: i64) + 2) = unat l + 2"
    by (simp add: unat_word_ariths unat_ucast_u32)
  then show ?thesis
    by (metis add_is_0 unat_0 zero_neq_numeral)
qed

lemma simpleMatch_Len:
  "decodeOp_simpleMatch env ps d = (Inr op, d') \<Longrightarrow> Len op \<noteq> 0"
  by (auto simp: decodeOp_simpleMatch_def Let_def minLength_def ucast_plus2_ne0 split: prod.splits option.splits if_splits)

lemma repLength_frame:
  "decodeOp_repLength env ps dist d = (res, d') \<Longrightarrow> decodedLen d' = decodedLen d \<and> unpackLen d' = unpackLen d \<and> dict d' = dict d"
  by (auto simp: decodeOp_repLength_def Let_def split: prod.splits option.splits if_splits)

lemma repLength_Len:
  "decodeOp_repLength env ps dist d = (Inr op, d') \<Longrightarrow> Len op \<noteq> 0"
  by (auto simp: decodeOp_repLength_def Let_def minLength_def ucast_plus2_ne0 split: prod.splits option.splits if_splits)

lemma repG1_frame:
  "decodeOp_repG1 env d = Return (res, d') \<Longrightarrow> decodedLen d' = decodedLen d \<and> unpackLen d' = unpackLen d \<and> dict d' = dict d"
  by (auto simp: decodeOp_repG1_def decodeOp_repShift_def Let_def split: prod.splits option.splits if_splits go.splits)

lemma rep_frame:
  "decodeOp_rep env ps s2 d = Return (res, d') \<Longrightarrow> decodedLen d' = decodedLen d \<and> unpackLen d' = unpackLen d \<and> dict d' = dict d"
  by (auto simp: decodeOp_rep_def Let_def split: prod.splits option.splits if_splits go.splits sum.splits
      dest!: repG1_frame repLength_frame)

lemma rep_Len:
  "decodeOp_rep env ps s2 d = Return (Inr op, d') \<Longrightarrow> Len op \<noteq> 0"
  by (auto simp: decodeOp_rep_def Let_def split: prod.splits option.splits if_splits go.splits sum.splits
      dest!: repLength_Len)

lemma decodeOp_frame:
  "decodeOp env d = Return (res, d') \<Longrightarrow> decodedLen d' = decodedLen d \<and> unpackLen d' = unpackLen d \<and> dict d' = dict d"
  by (auto simp: decodeOp_def Let_def split: prod.splits option.splits if_splits go.splits sum.splits
      dest!: rep_frame simpleMatch_frame decodeLiteral_frame)

lemma decodeOp_Len:
  "decodeOp env d = Return (Inr op, d') \<Longrightarrow> Len op \<noteq> 0"
  by (auto simp: decodeOp_def Let_def split: prod.splits option.splits if_splits go.splits sum.splits
      dest!: rep_Len simpleMatch_Len decodeLiteral_Len)


subsection \<open>fill\<close>

text \<open>
  The loop of \<open>fill\<close>, lines 159 to 196 of decoder.go. \<open>uint64(op.Len())\<close> keeps the bits
  of the \<open>int\<close>. Every pass that continues has made \<open>decodedLen\<close> larger, since an
  operation of \<open>decodeOp\<close> has a length other than 0 and an addition that wraps panics:
  the loop terminates.
\<close>

function fill_loop ::
  "('p, 'r, 'lit, 'len, 'dist, 'z) methods \<Rightarrow> ('p, 'r, 'lit, 'len, 'dist, 'z) Decoder
    \<Rightarrow> (error option \<times> ('p, 'r, 'lit, 'len, 'dist, 'z) Decoder) go" where
  "fill_loop env d =
     (if readable env (dict d) <s b_dd (dict d)
      then (case decodeOp env d of
              Panic s \<Rightarrow> Panic s
            | Return (Inl err, d) \<Rightarrow>
                if err = eofDecoded
                then if unpackLen d \<noteq> noUnpackLen \<and> decodedLen d \<noteq> unpackLen d
                     then Return (Some errUnexpectedEOS, d)
                     else Return (None, d\<lparr>dict := (dict d)\<lparr>eof := True\<rparr>\<rparr>)
                else if err = io_EOF
                then Return (Some (errors_New ''unexpected end of compressed stream''), d)
                else Return (Some err, d)
            | Return (Inr op, d) \<Rightarrow>
                (let n = decodedLen d + Len op
                 in if n < decodedLen d
                    then Panic ''negative op length or overflow of decodedLen''
                    else if n > unpackLen d
                    then Return (Some (errors_New ''decoded stream too long''),
                                 d\<lparr>dict := (dict d)\<lparr>eof := True\<rparr>\<rparr>)
                    else (let d = d\<lparr>decodedLen := n\<rparr>
                          in (case applyDecoderDict env op (dict d) of
                                (Some err, dict') \<Rightarrow> Return (Some err, d\<lparr>dict := dict'\<rparr>)
                              | (None, dict') \<Rightarrow>
                                  (let d = d\<lparr>dict := dict'\<rparr>
                                   in if n = unpackLen d
                                      then Return (None, d\<lparr>dict := (dict d)\<lparr>eof := True\<rparr>\<rparr>)
                                      else fill_loop env d)))))
      else Return (None, d))"
  by pat_completeness auto
termination
proof (relation "measure (\<lambda>(env, d). 2 ^ 64 - unat (decodedLen d))")
  show "wf (measure (\<lambda>(env :: ('p, 'r, 'lit, 'len, 'dist, 'z) methods,
                        d :: ('p, 'r, 'lit, 'len, 'dist, 'z) Decoder).
                        2 ^ 64 - unat (decodedLen d)))"
    by simp
next
  fix env :: "('p, 'r, 'lit, 'len, 'dist, 'z) methods"
    and d y xb xd :: "('p, 'r, 'lit, 'len, 'dist, 'z) Decoder"
    and x1 x op n ya
  assume dec: "decodeOp env d = Return x1" "(x, y) = x1" "x = Inr op"
    and n: "n = decodedLen y + Len op" "\<not> n < decodedLen y"
    and upd: "xb = y\<lparr>decodedLen := n\<rparr>" "xd = xb\<lparr>dict := ya\<rparr>"
  from dec have ret: "decodeOp env d = Return (Inr op, y)"
    by simp
  have same: "decodedLen y = decodedLen d"
    using decodeOp_frame [OF ret] by simp
  have "Len op \<noteq> 0"
    using decodeOp_Len [OF ret] .
  then have "n \<noteq> decodedLen d"
    using n(1) same by simp
  with n(2) same have "decodedLen d < n"
    by (simp add: order_less_le not_less)
  then have "unat (decodedLen d) < unat n"
    by (simp add: word_less_nat_alt)
  moreover have "unat n < 2 ^ 64"
    using unsigned_less [of n] by simp
  ultimately show "((env, xd), env, d) \<in> measure (\<lambda>(env, d). 2 ^ 64 - unat (decodedLen d))"
    using upd by simp
qed


text \<open>The equation of the loop is unfolded one pass at a time, where a proof says so.\<close>

declare fill_loop.simps [simp del]

text \<open>\<open>fill\<close>, lines 155 to 197 of decoder.go.\<close>

definition fill ::
  "('p, 'r, 'lit, 'len, 'dist, 'z) methods \<Rightarrow> ('p, 'r, 'lit, 'len, 'dist, 'z) Decoder
    \<Rightarrow> (error option \<times> ('p, 'r, 'lit, 'len, 'dist, 'z) Decoder) go" where
  "fill env d = (if eof (dict d) then Return (None, d) else fill_loop env d)"

subsection \<open>Read\<close>

text \<open>
  The loop of \<open>Decoder.Read\<close>, lines 128 to 148 of decoder.go. The caller's slice \<open>p\<close> is
  its length \<open>len_p\<close>; \<open>out\<close> is \<open>p[:n]\<close>, the bytes delivered so far, and \<open>n\<close> is its
  length. The dictionary's \<open>Read\<close> gets the length of \<open>p[n:]\<close> and returns the bytes it
  wrote there, whose number is \<open>k\<close>. The expression \<open>p[n:]\<close> panics when \<open>n\<close> exceeds the
  length of \<open>p\<close>. Nothing bounds the number of passes for an arbitrary dictionary, so a
  call that never returns has the value \<open>None\<close>.
\<close>

partial_function (option) Read_loop ::
  "('p, 'r, 'lit, 'len, 'dist, 'z) methods \<Rightarrow> ('p, 'r, 'lit, 'len, 'dist, 'z) Decoder
    \<Rightarrow> nat \<Rightarrow> byte list
    \<Rightarrow> ((byte list \<times> error option) \<times> ('p, 'r, 'lit, 'len, 'dist, 'z) Decoder) go option" where
  "Read_loop env d len_p out =
     (if len_p < length out
      then Some (Panic ''slice bounds out of range'')
      else (case decoderDict_Read env (dict d) (len_p - length out) of
              ((bs, err), dict') \<Rightarrow>
                (let d = d\<lparr>dict := dict'\<rparr>;
                     out = out @ bs
                 in if err = Some io_EOF
                    then if length out \<le> 0
                         then Some (Return (([], Some io_EOF), d))
                         else Some (Return ((out, None), d))
                    else (case err of
                            Some e \<Rightarrow> Some (Return ((out, Some (fmt_Errorf_LZMA e)), d))
                          | None \<Rightarrow>
                              if length out = len_p
                              then Some (Return ((out, None), d))
                              else (case fill env d of
                                      Panic s \<Rightarrow> Some (Panic s)
                                    | Return (Some e, d) \<Rightarrow>
                                        Some (Return ((out, Some (fmt_Errorf_LZMA e)), d))
                                    | Return (None, d) \<Rightarrow> Read_loop env d len_p out)))))"

definition Read ::
  "('p, 'r, 'lit, 'len, 'dist, 'z) methods \<Rightarrow> ('p, 'r, 'lit, 'len, 'dist, 'z) Decoder \<Rightarrow> nat
    \<Rightarrow> ((byte list \<times> error option) \<times> ('p, 'r, 'lit, 'len, 'dist, 'z) Decoder) go option" where
  "Read env d len_p = Read_loop env d len_p []"

text \<open>
  The results that \<open>Read\<close> can return: no error, or \<open>io.EOF\<close> with no byte, or an error
  made by \<open>fmt.Errorf("LZMA - %s", err)\<close>.
\<close>

definition Read_ok :: "((byte list \<times> error option) \<times> 's) go \<Rightarrow> bool" where
  "Read_ok y = (case y of
      Panic s \<Rightarrow> True
    | Return ((bs, err), d') \<Rightarrow>
        (case err of
           None \<Rightarrow> True
         | Some e \<Rightarrow> (e = io_EOF \<and> bs = []) \<or> (\<exists>e0. e = fmt_Errorf_LZMA e0)))"

section \<open>The encoder dictionaries of encoderdict.go\<close>

subsection \<open>The type encoderDict\<close>

text \<open>
  The fields of \<open>encoderDict\<close> carry the suffix \<open>_e\<close> and those of \<open>EncoderDict\<close> the suffix
  \<open>_E\<close>, since both types have fields \<open>buf\<close> and \<open>capacity\<close>. The type \<open>encoderBuffer\<close>
  (\<open>'eb\<close>) and its methods are declared outside encoderdict.go; the methods are
  parameters. \<open>ReadAt\<close> gets the length of the slice and returns its new contents.
\<close>

record 'eb encoderDict =
  buf_e :: 'eb
  head_e :: i64
  zero_e :: i64
  capacity_e :: i64

record 'eb encoderBuffer_methods =
  encoderBuffer_Pos :: "'eb \<Rightarrow> i64"
  encoderBuffer_WordLen :: "'eb \<Rightarrow> i64"
  encoderBuffer_ReadByteAt :: "'eb \<Rightarrow> i64 \<Rightarrow> byte \<times> error option"
  encoderBuffer_ReadAt :: "'eb \<Rightarrow> nat \<Rightarrow> i64 \<Rightarrow> byte list \<times> error option"
  encoderBuffer_matcher_Matches :: "'eb \<Rightarrow> byte list \<Rightarrow> i64 list"

definition encoderDict_Pos :: "'eb encoderDict \<Rightarrow> i64" where
  "encoderDict_Pos e = zero_e e + head_e e"

definition encoderDict_Len :: "'eb encoderDict \<Rightarrow> i64" where
  "encoderDict_Len e = (if capacity_e e \<le>s head_e e then capacity_e e else head_e e)"

definition encoderDict_Buffered :: "'eb encoderBuffer_methods \<Rightarrow> 'eb encoderDict \<Rightarrow> i64" where
  "encoderDict_Buffered env e = encoderBuffer_Pos env (buf_e e) - encoderDict_Pos e"

definition encoderDict_ByteAt ::
  "'eb encoderBuffer_methods \<Rightarrow> 'eb encoderDict \<Rightarrow> i64 \<Rightarrow> byte go" where
  "encoderDict_ByteAt env e distance =
     (if \<not> (0 <s distance \<and> distance \<le>s encoderDict_Len e)
      then Return 0
      else (case encoderBuffer_ReadByteAt env (buf_e e) (encoderDict_Pos e - distance) of
              (c, Some err) \<Rightarrow> Panic (''ByteAt: error '' @ Error err)
            | (c, None) \<Rightarrow> Return c))"

text \<open>
  The loop \<open>for _, pos := range positions\<close> of both \<open>Matches\<close> methods: \<open>d := hpos - pos\<close>
  wraps in \<open>int64\<close>, and \<open>int(d)\<close> keeps the bits.
\<close>

fun Matches_loop :: "i64 \<Rightarrow> i64 \<Rightarrow> i64 list \<Rightarrow> i64 list \<Rightarrow> i64 list" where
  "Matches_loop hpos n [] distances = distances"
| "Matches_loop hpos n (pos # positions) distances =
     (let d = hpos - pos
      in Matches_loop hpos n positions
           (if 0 <s d \<and> d \<le>s n then distances @ [d] else distances))"

text \<open>
  \<open>encoderDict.Matches\<close>, lines 107 to 125. A nil slice and an empty slice are both \<open>[]\<close>.
  \<open>make([]byte, n)\<close> panics for a negative \<open>n\<close>.
\<close>

definition encoderDict_Matches ::
  "'eb encoderBuffer_methods \<Rightarrow> 'eb encoderDict \<Rightarrow> i64 list go" where
  "encoderDict_Matches env e =
     (if encoderDict_Buffered env e <s encoderBuffer_WordLen env (buf_e e)
      then Return []
      else (let hpos = encoderDict_Pos e
            in if encoderBuffer_WordLen env (buf_e e) <s 0
               then Panic ''makeslice: len out of range''
               else (case encoderBuffer_ReadAt env (buf_e e)
                            (nat (sint (encoderBuffer_WordLen env (buf_e e)))) hpos of
                       (p, Some err) \<Rightarrow> Return []
                     | (p, None) \<Rightarrow>
                         (let positions = encoderBuffer_matcher_Matches env (buf_e e) p;
                              n = encoderDict_Len e
                          in Return (Matches_loop hpos n positions [])))))"

subsection \<open>The type EncoderDict\<close>

text \<open>
  The type \<open>buffer\<close> is declared outside encoderdict.go, which reads its fields \<open>data\<close>,
  \<open>front\<close> and \<open>rear\<close>; its methods \<open>Available\<close>, \<open>Buffered\<close> and \<open>Peek\<close>, and the methods of
  the interface \<open>matcher\<close> (\<open>'m\<close>), are parameters. \<open>Peek\<close> gets the length of the slice and
  returns its new contents.
\<close>

record buffer =
  data :: "byte list"
  front :: i64
  rear :: i64

record 'm EncoderDict =
  buf_E :: buffer
  m_E :: 'm
  capacity_E :: i64

record 'm EncoderDict_methods =
  buffer_Available :: "buffer \<Rightarrow> i64"
  buffer_Buffered :: "buffer \<Rightarrow> i64"
  buffer_Peek :: "buffer \<Rightarrow> nat \<Rightarrow> byte list"
  matcher_WordLen :: "'m \<Rightarrow> i64"
  matcher_Pos :: "'m \<Rightarrow> i64"
  matcher_Matches :: "'m \<Rightarrow> byte list \<Rightarrow> i64 list"

definition EncoderDict_Len :: "'m EncoderDict_methods \<Rightarrow> 'm EncoderDict \<Rightarrow> i64" where
  "EncoderDict_Len env ed =
     (let n = matcher_Pos env (m_E ed);
          a = buffer_Available env (buf_E ed)
      in if a <s n then a else n)"

definition EncoderDict_DictLen :: "'m EncoderDict_methods \<Rightarrow> 'm EncoderDict \<Rightarrow> i64" where
  "EncoderDict_DictLen env ed =
     (let n = matcher_Pos env (m_E ed)
      in if capacity_E ed <s n then capacity_E ed else n)"

text \<open>\<open>EncoderDict.ByteAt\<close>, lines 261 to 270; \<open>ed.buf.data[i]\<close> panics outside the slice.\<close>

definition EncoderDict_ByteAt :: "'m EncoderDict_methods \<Rightarrow> 'm EncoderDict \<Rightarrow> i64 \<Rightarrow> byte go" where
  "EncoderDict_ByteAt env ed distance =
     (if \<not> (0 <s distance \<and> distance <s EncoderDict_Len env ed)
      then Return 0
      else (let i = rear (buf_E ed) - distance;
                i = (if i <s 0 then i + of_nat (length (data (buf_E ed))) else i)
            in if 0 \<le>s i \<and> nat (sint i) < length (data (buf_E ed))
               then Return (data (buf_E ed) ! nat (sint i))
               else Panic ''index out of range''))"

text \<open>\<open>EncoderDict.Matches\<close>, lines 345 to 364.\<close>

definition EncoderDict_Matches :: "'m EncoderDict_methods \<Rightarrow> 'm EncoderDict \<Rightarrow> i64 list go" where
  "EncoderDict_Matches env ed =
     (let w = matcher_WordLen env (m_E ed)
      in if buffer_Buffered env (buf_E ed) <s w
         then Return []
         else if w <s 0
         then Panic ''makeslice: len out of range''
         else (let p = buffer_Peek env (buf_E ed) (nat (sint w));
                   positions = matcher_Matches env (m_E ed) p;
                   n = EncoderDict_DictLen env ed;
                   hpos = matcher_Pos env (m_E ed)
               in Return (Matches_loop hpos n positions [])))"

section \<open>Concrete inputs\<close>

subsection \<open>Encoder dictionaries\<close>

text \<open>
  An encoder buffer for the examples: the bytes written so far, addressed by absolute
  position from 0, and the positions its matcher reports. Its word length is 4, the one
  \<open>NewEncoderDict\<close> passes to \<open>newHashTable\<close>.
\<close>

definition table_buffer :: "(byte list \<times> i64 list) encoderBuffer_methods" where
  "table_buffer =
     \<lparr>encoderBuffer_Pos = (\<lambda>b. of_nat (length (fst b))),
      encoderBuffer_WordLen = (\<lambda>b. 4),
      encoderBuffer_ReadByteAt = (\<lambda>b pos.
        if 0 \<le>s pos \<and> nat (sint pos) < length (fst b) then (fst b ! nat (sint pos), None)
        else (0, Some (errors_New ''position out of range''))),
      encoderBuffer_ReadAt = (\<lambda>b n pos.
        if 0 \<le>s pos \<and> nat (sint pos) + n \<le> length (fst b)
        then (take n (drop (nat (sint pos)) (fst b)), None)
        else (replicate n 0, Some io_EOF)),
      encoderBuffer_matcher_Matches = (\<lambda>b p. snd b)\<rparr>"

text \<open>
  The text \<open>abcdabcdabcd\<close> with the head after 8 bytes: the word \<open>abcd\<close> at the head also
  stands at the positions 0 and 4; the matcher reports the head's own position as well.
\<close>

definition e_abcd :: "(byte list \<times> i64 list) encoderDict" where
  "e_abcd = \<lparr>buf_e = ([97, 98, 99, 100, 97, 98, 99, 100, 97, 98, 99, 100], [0, 4, 8]),
              head_e = 8, zero_e = 0, capacity_e = 4096\<rparr>"

text \<open>The text \<open>abcdabc\<close> with the head after 4 bytes: 3 bytes are buffered.\<close>

definition e_short :: "(byte list \<times> i64 list) encoderDict" where
  "e_short = \<lparr>buf_e = ([97, 98, 99, 100, 97, 98, 99], [0]),
               head_e = 4, zero_e = 0, capacity_e = 4096\<rparr>"

text \<open>The text \<open>AB\<close> with the head after 1 byte: the dictionary holds the byte \<open>A\<close>.\<close>

definition e_one :: "(byte list \<times> i64 list) encoderDict" where
  "e_one = \<lparr>buf_e = ([65, 66], []), head_e = 1, zero_e = 0, capacity_e = 4096\<rparr>"

text \<open>
  A ring buffer for the examples, which keeps one slot free: the bytes from \<open>rear\<close> up to
  \<open>front\<close> are buffered and the others are available. The matcher is its position and
  the positions it reports, with word length 4.
\<close>

definition ring :: "(i64 \<times> i64 list) EncoderDict_methods" where
  "ring =
     \<lparr>buffer_Available = (\<lambda>b.
        let delta = rear b - 1 - front b
        in if delta <s 0 then delta + of_nat (length (data b)) else delta),
      buffer_Buffered = (\<lambda>b.
        let delta = front b - rear b
        in if delta <s 0 then delta + of_nat (length (data b)) else delta),
      buffer_Peek = (\<lambda>b n. take n (drop (nat (sint (rear b))) (data b) @ data b)),
      matcher_WordLen = (\<lambda>m. 4),
      matcher_Pos = fst,
      matcher_Matches = (\<lambda>m p. snd m)\<rparr>"

text \<open>The same three texts in a ring of 16 slots.\<close>

definition ed_abcd :: "(i64 \<times> i64 list) EncoderDict" where
  "ed_abcd = \<lparr>buf_E = \<lparr>data = [97, 98, 99, 100, 97, 98, 99, 100, 97, 98, 99, 100, 0, 0, 0, 0],
                         front = 12, rear = 8\<rparr>,
               m_E = (8, [0, 4, 8]), capacity_E = 4096\<rparr>"

definition ed_short :: "(i64 \<times> i64 list) EncoderDict" where
  "ed_short = \<lparr>buf_E = \<lparr>data = [97, 98, 99, 100, 97, 98, 99, 0, 0, 0, 0, 0, 0, 0, 0, 0],
                          front = 7, rear = 4\<rparr>,
                m_E = (4, [0]), capacity_E = 4096\<rparr>"

definition ed_one :: "(i64 \<times> i64 list) EncoderDict" where
  "ed_one = \<lparr>buf_E = \<lparr>data = [65, 66, 0, 0, 0, 0, 0, 0, 0, 0, 0, 0, 0, 0, 0, 0],
                        front = 2, rear = 1\<rparr>,
              m_E = (1, []), capacity_E = 4096\<rparr>"

subsection \<open>A decoder\<close>

text \<open>What a call returned, and the state it left, when it did not panic.\<close>

definition returned :: "('a \<times> 'b) go \<Rightarrow> 'a option" where
  "returned r = (case r of Return (a, s) \<Rightarrow> Some a | Panic msg \<Rightarrow> None)"

definition final :: "('a \<times> 'b) go \<Rightarrow> 'b option" where
  "final r = (case r of Return (a, s) \<Rightarrow> Some s | Panic msg \<Rightarrow> None)"

text \<open>
  A range decoder for the examples, together with the codecs that read from it: the
  sequence of the symbols that the compressed stream decodes to. Each \<open>Decode\<close> takes the
  next symbol; at the end of the sequence it fails with \<open>io.EOF\<close>, as a range decoder
  does at the end of its input. The probabilities and the codecs have no state of their
  own here. \<open>possiblyAtEnd\<close> holds at the end of the sequence.
\<close>

datatype sym = Bit u32 | LenSym u32 | DistSym u32 | LitSym byte

text \<open>
  Modelled from the spec: the decoder dictionary (section 4.G), whose code is outside
  decoder.go. \<open>hist\<close> holds the bytes written so far, the newest last, of which the last
  \<open>unread\<close> were not yet delivered to the reader. \<open>byte_at\<close> returns 0 before the start of
  the stream; a match fails with an invalid distance if \<open>dist\<close> is 0 or exceeds
  \<open>min(total, DictLen)\<close> and otherwise appends \<open>byte_at(dist)\<close> \<open>len\<close> times; \<open>Read\<close> delivers
  completed bytes and reports \<open>io.EOF\<close> once \<open>eof\<close> is set and nothing is left.
\<close>

record dictX = decoderDict +
  hist :: "byte list"
  unread :: nat
  dictLen_x :: nat

fun copyMatch :: "nat \<Rightarrow> nat \<Rightarrow> byte list \<Rightarrow> byte list" where
  "copyMatch 0 dist h = h"
| "copyMatch (Suc n) dist h = copyMatch n dist (h @ [h ! (length h - dist)])"

definition dictX_getByte :: "dictX \<Rightarrow> i64 \<Rightarrow> byte" where
  "dictX_getByte dd dist =
     (if 0 <s dist \<and> nat (sint dist) \<le> length (hist dd)
      then hist dd ! (length (hist dd) - nat (sint dist))
      else 0)"

definition dictX_Read :: "dictX \<Rightarrow> nat \<Rightarrow> (byte list \<times> error option) \<times> dictX" where
  "dictX_Read dd n =
     (if unread dd = 0 \<and> eof dd
      then (([], Some io_EOF), dd)
      else (let k = min n (unread dd)
            in ((take k (drop (length (hist dd) - unread dd) (hist dd)), None),
                dd\<lparr>unread := unread dd - k\<rparr>)))"

definition dictX_apply :: "operation \<Rightarrow> dictX \<Rightarrow> error option \<times> dictX" where
  "dictX_apply op dd =
     (case op of
        lit_op s \<Rightarrow>
          (None, dd\<lparr>total_dd := total_dd dd + 1, hist := hist dd @ [s],
                     unread := unread dd + 1\<rparr>)
      | rep_op l dist \<Rightarrow>
          if dist \<le>s 0 \<or> min (length (hist dd)) (dictLen_x dd) < nat (sint dist)
          then (Some (errors_New ''invalid distance''), dd)
          else (None, dd\<lparr>total_dd := total_dd dd + l,
                          hist := copyMatch (nat (sint l)) (nat (sint dist)) (hist dd),
                          unread := unread dd + nat (sint l)\<rparr>))"

definition script :: "(unit, sym list, unit, unit, unit, unit dictX_ext) methods" where
  "script =
     \<lparr>prob_Decode = (\<lambda>p r.
        case r of Bit b # r' \<Rightarrow> ((b, None), p, r') | _ \<Rightarrow> ((0, Some io_EOF), p, r)),
      possiblyAtEnd = (\<lambda>r. r = []),
      literalCodec_Decode = (\<lambda>c r st m ls.
        case r of LitSym s # r' \<Rightarrow> ((s, None), c, r') | _ \<Rightarrow> ((0, Some io_EOF), c, r)),
      lengthCodec_Decode = (\<lambda>c r ps.
        case r of LenSym l # r' \<Rightarrow> ((l, None), c, r') | _ \<Rightarrow> ((0, Some io_EOF), c, r)),
      distCodec_Decode = (\<lambda>c l r.
        case r of DistSym x # r' \<Rightarrow> ((x, None), c, r') | _ \<Rightarrow> ((0, Some io_EOF), c, r)),
      getByte = dictX_getByte,
      readable = (\<lambda>dd. of_nat (unread dd)),
      decoderDict_Read = dictX_Read,
      applyDecoderDict = dictX_apply\<rparr>"

text \<open>
  The decoder as \<open>NewDecoder\<close> leaves it, for the properties LC = 3, LP = 0, PB = 2 and
  a dictionary of 4096 bytes: \<open>newDecoder n h syms\<close> has the unpack length \<open>n\<close>, the
  symbols \<open>syms\<close> ahead of it, and a dictionary to which the bytes \<open>h\<close> were written and
  delivered (none, right after \<open>NewDecoder\<close>).
\<close>

definition newDecoder ::
  "u64 \<Rightarrow> byte list \<Rightarrow> sym list \<Rightarrow> (unit, sym list, unit, unit, unit, unit dictX_ext) Decoder" where
  "newDecoder n h syms =
     \<lparr>properties = \<lparr>LC = 3, LP = 0, PB = 2, DictLen = 4096\<rparr>,
      unpackLen = n,
      decodedLen = of_nat (length h),
      dict = \<lparr>eof = False, total_dd = of_nat (length h), b_dd = 65536,
               hist = h, unread = 0, dictLen_x = 4096\<rparr>,
      state = 0,
      posBitMask = 3,
      rd = syms,
      isMatch = replicate 192 (),
      isRep = replicate 12 (),
      isRepG0 = replicate 12 (),
      isRepG1 = replicate 12 (),
      isRepG2 = replicate 12 (),
      isRepG0Long = replicate 192 (),
      rep = (0, 0, 0, 0),
      litDecoder = (),
      lengthDecoder = (),
      repLengthDecoder = (),
      distDecoder = ()\<rparr>"

text \<open>A stream that ends after one literal although five bytes were announced.\<close>

definition truncated :: "(unit, sym list, unit, unit, unit, unit dictX_ext) Decoder" where
  "truncated = newDecoder 5 [] [Bit 0, LitSym 65]"

text \<open>
  The decoder after a first \<open>Read\<close> on that stream, which decoded the literal and then met
  the end of the input, and after a second, which delivered the literal.
\<close>

definition truncated1 :: "(unit, sym list, unit, unit, unit, unit dictX_ext) Decoder" where
  "truncated1 = truncated\<lparr>rd := [], decodedLen := 1,
      dict := \<lparr>eof = False, total_dd = 1, b_dd = 65536, hist = [65], unread = 1,
                dictLen_x = 4096\<rparr>\<rparr>"

definition truncated2 :: "(unit, sym list, unit, unit, unit, unit dictX_ext) Decoder" where
  "truncated2 = truncated1\<lparr>dict := (dict truncated1)\<lparr>unread := 0\<rparr>\<rparr>"

text \<open>A decoder that decoded and delivered the single byte of its stream.\<close>

definition finished :: "(unit, sym list, unit, unit, unit, unit dictX_ext) Decoder" where
  "finished = (newDecoder 1 [65] [])\<lparr>dict := (dict (newDecoder 1 [65] []))\<lparr>eof := True\<rparr>\<rparr>"

text \<open>The same methods with a dictionary whose \<open>Read\<close> fails.\<close>

definition script_closed :: "(unit, sym list, unit, unit, unit, unit dictX_ext) methods" where
  "script_closed = script\<lparr>decoderDict_Read := (\<lambda>dd n. (([], Some (errors_New ''closed'')), dd))\<rparr>"

text \<open>
  A stream that announces one byte and starts with a match of length 2, and the decoder
  after a first \<open>Read\<close> on it.
\<close>

definition overlong :: "(unit, sym list, unit, unit, unit, unit dictX_ext) Decoder" where
  "overlong = newDecoder 1 [] [Bit 1, Bit 0, LenSym 0, DistSym 0]"

definition overlong1 :: "(unit, sym list, unit, unit, unit, unit dictX_ext) Decoder" where
  "overlong1 = overlong\<lparr>rd := [], state := 7, dict := (dict overlong)\<lparr>eof := True\<rparr>\<rparr>"

text \<open>
  The values \<open>posState\<close> and \<open>state2\<close> that \<open>decodeOp\<close> computes first, and the bit that
  \<open>d.isMatch[i].Decode(d.rd)\<close> decodes, with the range decoder it leaves, when it neither
  panics nor fails.
\<close>

definition posState_of :: "('p, 'r, 'lit, 'len, 'dist, 'z) Decoder \<Rightarrow> u32" where
  "posState_of d = (ucast (total_dd (dict d)) :: u32) AND posBitMask d"

definition state2_of :: "('p, 'r, 'lit, 'len, 'dist, 'z) Decoder \<Rightarrow> u32" where
  "state2_of d = push_bit maxPosBits (state d) OR posState_of d"

definition bitOf ::
  "('p, 'r, 'lit, 'len, 'dist, 'z) methods \<Rightarrow> 'p list \<Rightarrow> nat \<Rightarrow> 'r \<Rightarrow> (u32 \<times> 'r) option" where
  "bitOf env ps i r =
     (case probDecode env ps i r of
        Return ((b, None), ps', r') \<Rightarrow> Some (b, r')
      | Return ((b, Some e), ps', r') \<Rightarrow> None
      | Panic s \<Rightarrow> None)"

text \<open>
  A decoder in the state 7 that has written and delivered the bytes \<open>abcdefgh\<close> and whose
  history of distances is 1, 2, 3, 4.
\<close>

definition repDecoder :: "sym list \<Rightarrow> (unit, sym list, unit, unit, unit, unit dictX_ext) Decoder" where
  "repDecoder syms =
     (newDecoder 100 [97, 98, 99, 100, 101, 102, 103, 104] syms)\<lparr>rep := (1, 2, 3, 4), state := 7\<rparr>"

section \<open>Properties of the state machine\<close>

text \<open>
  Claim C2. For every state value in [0, 11]: after a literal, states 0-3 go to 0, states
  4-9 to state - 3 and states 10-11 to state - 6 (no subtraction wraps); after a simple
  match, states below 7 go to 7 and the others to 10; after a rep, to 8 and 11; after a
  short rep, to 9 and 11. Every transition maps [0, 11] into [0, 11]. Each transition is
  a function of the state and of the kind of operation alone.
\<close>

theorem C2_state_transitions:
  assumes "s \<le> 11"
  shows "unat (updateStateLiteral s) =
           (if unat s \<le> 3 then 0 else if unat s \<le> 9 then unat s - 3 else unat s - 6)
       \<and> updateStateMatch s = (if unat s < 7 then 7 else 10)
       \<and> updateStateRep s = (if unat s < 7 then 8 else 11)
       \<and> updateStateShortRep s = (if unat s < 7 then 9 else 11)
       \<and> updateStateLiteral s \<le> 11 \<and> updateStateMatch s \<le> 11
       \<and> updateStateRep s \<le> 11 \<and> updateStateShortRep s \<le> 11"
  using assms
  unfolding updateStateLiteral_def updateStateMatch_def updateStateRep_def
    updateStateShortRep_def
  by (auto simp: word_less_nat_alt word_le_nat_alt unat_sub)

theorem C2_state_transitions_witness:
  "(10 :: u32) \<le> 11
   \<and> unat (updateStateLiteral 10) = 4 \<and> updateStateMatch 10 = 10
   \<and> updateStateRep 10 = 11 \<and> updateStateShortRep 10 = 11
   \<and> updateStateLiteral 10 \<le> 11"
  using C2_state_transitions [of 10] by simp

section \<open>Properties of the encoder dictionaries\<close>

lemma Matches_loop_bounds:
  "\<forall>d\<in>set acc. 0 <s d \<and> d \<le>s n \<Longrightarrow>
   \<forall>d\<in>set (Matches_loop hpos n ps acc). 0 <s d \<and> d \<le>s n"
proof (induction ps arbitrary: acc)
  case Nil
  then show ?case by simp
next
  case (Cons pos ps)
  show ?case
    unfolding Matches_loop.simps Let_def
    by (rule Cons.IH) (use Cons.prems in auto)
qed

lemma encoderDict_Matches_bounds:
  assumes "encoderDict_Matches env e = Return ds"
  shows "\<forall>d\<in>set ds. 0 <s d \<and> d \<le>s encoderDict_Len e"
proof (cases "encoderDict_Buffered env e <s encoderBuffer_WordLen env (buf_e e)")
  case True
  with assms show ?thesis by (simp add: encoderDict_Matches_def)
next
  case False
  obtain p err where ra: "encoderBuffer_ReadAt env (buf_e e)
      (nat (sint (encoderBuffer_WordLen env (buf_e e)))) (encoderDict_Pos e) = (p, err)"
    by (cases "encoderBuffer_ReadAt env (buf_e e)
      (nat (sint (encoderBuffer_WordLen env (buf_e e)))) (encoderDict_Pos e)")
  show ?thesis
  proof (cases err)
    case (Some a)
    with assms False ra show ?thesis
      by (simp add: encoderDict_Matches_def Let_def split: if_splits)
  next
    case None
    with assms False ra have "ds = Matches_loop (encoderDict_Pos e) (encoderDict_Len e)
        (encoderBuffer_matcher_Matches env (buf_e e) p) []"
      by (simp add: encoderDict_Matches_def Let_def split: if_splits)
    then show ?thesis
      using Matches_loop_bounds [of "[]"] by simp
  qed
qed

lemma EncoderDict_Matches_bounds:
  assumes "EncoderDict_Matches env ed = Return ds"
  shows "\<forall>d\<in>set ds. 0 <s d \<and> d \<le>s EncoderDict_DictLen env ed"
proof (cases "buffer_Buffered env (buf_E ed) <s matcher_WordLen env (m_E ed)")
  case True
  with assms show ?thesis by (simp add: EncoderDict_Matches_def Let_def)
next
  case False
  with assms have "ds = Matches_loop (matcher_Pos env (m_E ed)) (EncoderDict_DictLen env ed)
      (matcher_Matches env (m_E ed)
         (buffer_Peek env (buf_E ed) (nat (sint (matcher_WordLen env (m_E ed)))))) []"
    by (simp add: EncoderDict_Matches_def Let_def split: if_splits)
  then show ?thesis
    using Matches_loop_bounds [of "[]"] by simp
qed

text \<open>
  Claim C9. For both encoder dictionaries every distance \<open>d\<close> that \<open>Matches\<close> returns
  satisfies \<open>0 < d\<close> and \<open>d \<le> Len()\<close> (for \<open>encoderDict\<close>) or \<open>d \<le> DictLen()\<close> (for
  \<open>EncoderDict\<close>), and when fewer bytes than the matcher's word length are buffered
  \<open>Matches\<close> returns a nil slice. The comparisons are those of signed 64-bit integers.
\<close>

theorem C9_Matches_distances:
  "(encoderDict_Matches env e = Return ds \<longrightarrow>
      (\<forall>d\<in>set ds. 0 <s d \<and> d \<le>s encoderDict_Len e))
   \<and> (encoderDict_Buffered env e' <s encoderBuffer_WordLen env (buf_e e') \<longrightarrow>
      encoderDict_Matches env e' = Return [])
   \<and> (EncoderDict_Matches envE ed = Return dsE \<longrightarrow>
      (\<forall>d\<in>set dsE. 0 <s d \<and> d \<le>s EncoderDict_DictLen envE ed))
   \<and> (buffer_Buffered envE (buf_E ed') <s matcher_WordLen envE (m_E ed') \<longrightarrow>
      EncoderDict_Matches envE ed' = Return [])"
  using encoderDict_Matches_bounds [of env e ds] EncoderDict_Matches_bounds [of envE ed dsE]
  by (simp add: encoderDict_Matches_def EncoderDict_Matches_def Let_def)

lemmas enc_defs = encoderDict_Matches_def encoderDict_Len_def encoderDict_Buffered_def
  encoderDict_Pos_def encoderDict_ByteAt_def table_buffer_def e_abcd_def e_short_def e_one_def
  EncoderDict_Matches_def EncoderDict_Len_def EncoderDict_DictLen_def EncoderDict_ByteAt_def
  ring_def ed_abcd_def ed_short_def ed_one_def word_sless_alt word_sle_eq Let_def

theorem C9_Matches_distances_witness:
  "encoderDict_Matches table_buffer e_abcd = Return [8, 4]
   \<and> 0 <s (8 :: i64) \<and> 8 \<le>s encoderDict_Len e_abcd
   \<and> 0 <s (4 :: i64) \<and> 4 \<le>s encoderDict_Len e_abcd
   \<and> encoderDict_Len e_abcd = 8
   \<and> encoderDict_Buffered table_buffer e_short <s encoderBuffer_WordLen table_buffer (buf_e e_short)
   \<and> encoderDict_Matches table_buffer e_short = Return []
   \<and> EncoderDict_Matches ring ed_abcd = Return [8, 4]
   \<and> 0 <s (8 :: i64) \<and> 8 \<le>s EncoderDict_DictLen ring ed_abcd
   \<and> 0 <s (4 :: i64) \<and> 4 \<le>s EncoderDict_DictLen ring ed_abcd
   \<and> EncoderDict_DictLen ring ed_abcd = 8
   \<and> buffer_Buffered ring (buf_E ed_short) <s matcher_WordLen ring (m_E ed_short)
   \<and> EncoderDict_Matches ring ed_short = Return []"
  using C9_Matches_distances [of table_buffer e_abcd "[8, 4]" e_short ring ed_abcd "[8, 4]" ed_short]
  by (simp add: enc_defs)

text \<open>
  \<open>encoderDict.ByteAt\<close> reads the buffer at every distance from 1 up to \<open>Len()\<close>, both
  included, and returns 0 at every other distance.
\<close>

lemma encoderDict_ByteAt_inside:
  assumes "0 <s d" and "d \<le>s encoderDict_Len e"
  shows "encoderDict_ByteAt env e d =
           (case encoderBuffer_ReadByteAt env (buf_e e) (encoderDict_Pos e - d) of
              (c, Some err) \<Rightarrow> Panic (''ByteAt: error '' @ Error err)
            | (c, None) \<Rightarrow> Return c)"
  using assms by (auto simp: encoderDict_ByteAt_def split: prod.splits option.splits)

lemma encoderDict_ByteAt_outside:
  assumes "\<not> (0 <s d \<and> d \<le>s encoderDict_Len e)"
  shows "encoderDict_ByteAt env e d = Return 0"
  using assms by (simp add: encoderDict_ByteAt_def)

text \<open>
  \<open>EncoderDict.ByteAt\<close> reads \<open>data\<close> at every distance from 1 up to \<open>Len() - 1\<close> and
  returns 0 at every other distance: at the distance \<open>Len()\<close> itself it returns 0,
  whatever the dictionary holds.
\<close>

lemma EncoderDict_ByteAt_inside:
  assumes "0 <s d" and "d <s EncoderDict_Len env ed"
  shows "EncoderDict_ByteAt env ed d =
           (let i = rear (buf_E ed) - d;
                i = (if i <s 0 then i + of_nat (length (data (buf_E ed))) else i)
            in if 0 \<le>s i \<and> nat (sint i) < length (data (buf_E ed))
               then Return (data (buf_E ed) ! nat (sint i))
               else Panic ''index out of range'')"
  using assms by (simp add: EncoderDict_ByteAt_def)

lemma EncoderDict_ByteAt_outside:
  assumes "\<not> (0 <s d \<and> d <s EncoderDict_Len env ed)"
  shows "EncoderDict_ByteAt env ed d = Return 0"
  using assms by (simp add: EncoderDict_ByteAt_def)

lemma EncoderDict_ByteAt_at_Len:
  "EncoderDict_ByteAt env ed (EncoderDict_Len env ed) = Return 0"
  by (simp add: EncoderDict_ByteAt_def)

text \<open>
  Claim C5. For both encoder dictionaries \<open>ByteAt(d)\<close> should return the byte \<open>d\<close>
  positions behind the head for every \<open>d\<close> from 1 up to \<open>Len()\<close>, both included, and 0
  for every other \<open>d\<close>. \<open>EncoderDict.ByteAt\<close> does not: with the single byte \<open>A\<close> (65) in
  the dictionary, \<open>Len()\<close> is 1 and \<open>ByteAt(1)\<close> returns 0, although the byte before \<open>rear\<close>
  is 65. \<open>encoderDict.ByteAt\<close> returns 65 on the same text.
\<close>

theorem C5_EncoderDict_ByteAt_excludes_Len:
  "EncoderDict_Len ring ed_one = 1
   \<and> rear (buf_E ed_one) = 1
   \<and> data (buf_E ed_one) ! 0 = 65
   \<and> EncoderDict_ByteAt ring ed_one 1 = Return 0
   \<and> encoderDict_Len e_one = 1
   \<and> encoderDict_ByteAt table_buffer e_one 1 = Return 65"
  by (simp add: enc_defs)

section \<open>Properties of the decoder\<close>

text \<open>Evaluation of the concrete decoder.\<close>

lemma replicate_update_same: "(replicate n x)[i := x] = replicate n x"
  by (induction n arbitrary: i) (simp_all split: nat.split)

lemmas script_defs = replicate_update_same script_def newDecoder_def probDecode_def
  maxPosBits_def noUnpackLen_def dictX_getByte_def dictX_Read_def dictX_apply_def
  returned_def final_def word_sless_alt word_sle_eq

text \<open>One pass of the loop, by the result of decodeOp.\<close>

lemma fill_loop_done:
  "\<not> readable env (dict d) <s b_dd (dict d) \<Longrightarrow> fill_loop env d = Return (None, d)"
  by (subst fill_loop.simps) simp

lemma fill_loop_Panic:
  "readable env (dict d) <s b_dd (dict d) \<Longrightarrow> decodeOp env d = Panic s \<Longrightarrow>
   fill_loop env d = Panic s"
  by (subst fill_loop.simps) simp

lemma fill_loop_Inl:
  "readable env (dict d) <s b_dd (dict d) \<Longrightarrow> decodeOp env d = Return (Inl err, d1) \<Longrightarrow>
   fill_loop env d =
     (if err = eofDecoded
      then if unpackLen d1 \<noteq> noUnpackLen \<and> decodedLen d1 \<noteq> unpackLen d1
           then Return (Some errUnexpectedEOS, d1)
           else Return (None, d1\<lparr>dict := (dict d1)\<lparr>eof := True\<rparr>\<rparr>)
      else if err = io_EOF
      then Return (Some (errors_New ''unexpected end of compressed stream''), d1)
      else Return (Some err, d1))"
  by (subst fill_loop.simps) simp

lemma fill_loop_Inr:
  "readable env (dict d) <s b_dd (dict d) \<Longrightarrow> decodeOp env d = Return (Inr op, d1) \<Longrightarrow>
   fill_loop env d =
     (let n = decodedLen d1 + Len op
      in if n < decodedLen d1
         then Panic ''negative op length or overflow of decodedLen''
         else if n > unpackLen d1
         then Return (Some (errors_New ''decoded stream too long''),
                      d1\<lparr>dict := (dict d1)\<lparr>eof := True\<rparr>\<rparr>)
         else (case applyDecoderDict env op (dict d1) of
                 (Some err, dict') \<Rightarrow> Return (Some err, d1\<lparr>decodedLen := n, dict := dict'\<rparr>)
               | (None, dict') \<Rightarrow>
                   if n = unpackLen d1
                   then Return (None, d1\<lparr>decodedLen := n, dict := dict'\<lparr>eof := True\<rparr>\<rparr>)
                   else fill_loop env (d1\<lparr>decodedLen := n, dict := dict'\<rparr>)))"
  by (subst fill_loop.simps) (simp add: Let_def split: prod.splits option.splits)

lemma fill_loop_too_long:
  assumes "readable env (dict d) <s b_dd (dict d)"
    and "decodeOp env d = Return (Inr op, d1)"
    and "\<not> decodedLen d + Len op < decodedLen d"
    and "unpackLen d < decodedLen d + Len op"
  shows "fill_loop env d =
           Return (Some (errors_New ''decoded stream too long''),
                   d1\<lparr>dict := (dict d)\<lparr>eof := True\<rparr>\<rparr>)"
  using assms decodeOp_frame [OF assms(2)] by (simp add: fill_loop_Inr Let_def)


text \<open>A pass that continues has made decodedLen larger.\<close>

lemma pass_increases:
  assumes "decodeOp env d = Return (Inr op, d1)"
    and "\<not> decodedLen d1 + Len op < decodedLen d1"
  shows "decodedLen d < decodedLen d1 + Len op"
proof -
  have same: "decodedLen d1 = decodedLen d"
    using decodeOp_frame [OF assms(1)] by simp
  have "Len op \<noteq> 0"
    using decodeOp_Len [OF assms(1)] .
  then have "decodedLen d1 + Len op \<noteq> decodedLen d"
    using same by simp
  with assms(2) same show ?thesis
    by (simp add: order_less_le not_less)
qed

lemma fill_loop_invariant:
  "fill_loop env d = Return (r, d') \<Longrightarrow>
   decodedLen d \<le> decodedLen d' \<and> unpackLen d' = unpackLen d
   \<and> (decodedLen d \<le> unpackLen d \<longrightarrow> decodedLen d' \<le> unpackLen d')"
proof (induction d arbitrary: r d' rule: measure_induct_rule [where f = "\<lambda>d. 2 ^ 64 - unat (decodedLen d)"])
  case (less d)
  show ?case
  proof (cases "readable env (dict d) <s b_dd (dict d)")
    case False
    with less.prems show ?thesis
      by (simp add: fill_loop_done)
  next
    case True
    show ?thesis
    proof (cases "decodeOp env d")
      case (Panic s)
      with True less.prems show ?thesis
        by (simp add: fill_loop_Panic)
    next
      case (Return x)
      obtain res d1 where x: "x = (res, d1)"
        by (cases x)
      have fr: "decodedLen d1 = decodedLen d" "unpackLen d1 = unpackLen d"
        using decodeOp_frame [of env d res d1] Return x by simp_all
      show ?thesis
      proof (cases res)
        case (Inl err)
        with True Return x less.prems fr show ?thesis
          by (auto simp: fill_loop_Inl split: if_splits)
      next
        case (Inr op)
        then have dec: "decodeOp env d = Return (Inr op, d1)"
          using Return x by simp
        define n where "n = decodedLen d + Len op"
        obtain e dict' where ap: "applyDecoderDict env op (dict d1) = (e, dict')"
          by (cases "applyDecoderDict env op (dict d1)")
        show ?thesis
        proof (cases "n < decodedLen d1 \<or> unpackLen d1 < n")
          case True
          with \<open>readable env (dict d) <s b_dd (dict d)\<close> dec less.prems fr show ?thesis
            by (auto simp: fill_loop_Inr Let_def n_def split: if_splits)
        next
          case False
          then have lt: "decodedLen d < n"
            using pass_increases [OF dec] fr by (simp add: n_def)
          show ?thesis
          proof (cases "e = None \<and> n \<noteq> unpackLen d1")
            case False
            with \<open>\<not> (n < decodedLen d1 \<or> unpackLen d1 < n)\<close>
              \<open>readable env (dict d) <s b_dd (dict d)\<close> dec less.prems fr ap lt
            show ?thesis
              by (auto simp: fill_loop_Inr Let_def n_def split: if_splits option.splits)
          next
            case True
            let ?d2 = "d1\<lparr>decodedLen := n, dict := dict'\<rparr>"
            have rec: "fill_loop env ?d2 = Return (r, d')"
              using True \<open>\<not> (n < decodedLen d1 \<or> unpackLen d1 < n)\<close>
                \<open>readable env (dict d) <s b_dd (dict d)\<close> dec less.prems ap fr
              by (simp add: fill_loop_Inr Let_def n_def)
            have "unat (decodedLen d) < unat n"
              using lt by (simp add: word_less_nat_alt)
            moreover have "unat n < 2 ^ 64"
              using unsigned_less [of n] by simp
            ultimately have "2 ^ 64 - unat (decodedLen ?d2) < 2 ^ 64 - unat (decodedLen d)"
              by simp
            from less.IH [OF this rec] lt fr
              \<open>\<not> (n < decodedLen d1 \<or> unpackLen d1 < n)\<close>
            show ?thesis
              by (auto simp: not_less)
          qed
        qed
      qed
    qed
  qed
qed

text \<open>
  Claim C1. In a pass of the loop of \<open>fill\<close> in which \<open>decodeOp\<close> decodes a simple match
  (\<open>isMatch\<close> gives a bit other than 0, \<open>isRep\<close> gives 0, the length is decoded without
  error) and the distance codec returns \<open>0xFFFFFFFF\<close> without error: if the range decoder
  is not possibly at its end, \<open>fill\<close> fails with \<open>errWrongTermination\<close>; otherwise, if
  \<open>unpackLen\<close> is not \<open>noUnpackLen\<close> and \<open>decodedLen\<close> differs from \<open>unpackLen\<close>, it fails
  with \<open>errUnexpectedEOS\<close>; otherwise it sets \<open>eof\<close> in the dictionary and returns nil. In each
  case the decoder is left as \<open>d'\<close>: the history shifted with \<open>rep[0] = 0xFFFFFFFF\<close>, the
  state that of a match. The statement holds for every pass (\<open>fill_loop\<close>), and for
  \<open>fill\<close> itself when the pass is the first.
\<close>

theorem C1_end_of_stream_marker:
  assumes loop: "readable env (dict d) <s b_dd (dict d)"
    and posState: "posState = (ucast (total_dd (dict d)) :: u32) AND posBitMask d"
    and state2: "state2 = push_bit maxPosBits (state d) OR posState"
    and isMatch: "probDecode env (isMatch d) (unat state2) (rd d) = Return ((b1, None), ps1, rd1)"
      "b1 \<noteq> 0"
    and isRep: "probDecode env (isRep d) (unat (state d)) rd1 = Return ((0, None), ps2, rd2)"
    and len: "lengthCodec_Decode env (lengthDecoder d) rd2 posState = ((l, None), len', rd3)"
    and dist: "distCodec_Decode env (distDecoder d) l rd3 = ((0xffffffff, None), dist', rd4)"
    and d': "d' = d\<lparr>rd := rd4, isMatch := ps1, isRep := ps2,
                     rep := (0xffffffff, rep_get (rep d) 0, rep_get (rep d) 1, rep_get (rep d) 2),
                     state := updateStateMatch (state d),
                     lengthDecoder := len', distDecoder := dist'\<rparr>"
    and R: "R = (if \<not> possiblyAtEnd env rd4 then Return (Some errWrongTermination, d')
                 else if unpackLen d \<noteq> noUnpackLen \<and> decodedLen d \<noteq> unpackLen d
                 then Return (Some errUnexpectedEOS, d')
                 else Return (None, d'\<lparr>dict := (dict d)\<lparr>eof := True\<rparr>\<rparr>))"
  shows "fill_loop env d = R \<and> (\<not> eof (dict d) \<longrightarrow> fill env d = R)"
proof -
  obtain r0 r1 r2 r3 where r: "rep d = (r0, r1, r2, r3)"
    by (cases "rep d") auto
  have sm: "decodeOp_simpleMatch env posState (d\<lparr>isMatch := ps1, rd := rd1\<rparr>\<lparr>isRep := ps2, rd := rd2\<rparr>) =
      (if \<not> possiblyAtEnd env rd4 then (Inl errWrongTermination, d') else (Inl eofDecoded, d'))"
    using len dist by (simp add: decodeOp_simpleMatch_def Let_def r d')
  have op: "decodeOp env d =
      Return (if \<not> possiblyAtEnd env rd4 then (Inl errWrongTermination, d') else (Inl eofDecoded, d'))"
    using isMatch isRep sm by (simp add: decodeOp_def Let_def posState [symmetric] state2 [symmetric])
  have "fill_loop env d = R"
    by (subst fill_loop.simps) (simp add: loop op R d')
  then show ?thesis
    by (simp add: fill_def)
qed

theorem C1_end_of_stream_marker_witness:
  "returned (fill script (newDecoder 5 [] [Bit 1, Bit 0, LenSym 0, DistSym 0xffffffff]))
     = Some (Some errUnexpectedEOS)
   \<and> returned (fill script (newDecoder 5 [] [Bit 1, Bit 0, LenSym 0, DistSym 0xffffffff, Bit 0]))
     = Some (Some errWrongTermination)
   \<and> returned (fill script (newDecoder noUnpackLen [] [Bit 1, Bit 0, LenSym 0, DistSym 0xffffffff]))
     = Some None
   \<and> map_option (\<lambda>d. eof (dict d))
        (final (fill script (newDecoder noUnpackLen [] [Bit 1, Bit 0, LenSym 0, DistSym 0xffffffff])))
     = Some True"
proof -
  have run: "returned (fill script (newDecoder n [] (Bit 1 # Bit 0 # LenSym 0 # DistSym 0xffffffff # rest)))
       = Some (if rest \<noteq> [] then Some errWrongTermination
               else if n \<noteq> noUnpackLen \<and> 0 \<noteq> n then Some errUnexpectedEOS else None)
     \<and> map_option (\<lambda>d. eof (dict d))
          (final (fill script (newDecoder n [] (Bit 1 # Bit 0 # LenSym 0 # DistSym 0xffffffff # rest))))
       = Some (rest = [] \<and> (n = noUnpackLen \<or> n = 0))" for n rest
  proof -
    let ?d = "newDecoder n [] (Bit 1 # Bit 0 # LenSym 0 # DistSym 0xffffffff # rest)"
    have loop: "readable script (dict ?d) <s b_dd (dict ?d)"
      by (simp add: script_defs)
    have m: "probDecode script (isMatch ?d)
        (unat (push_bit maxPosBits (state ?d) OR ((ucast (total_dd (dict ?d)) :: u32) AND posBitMask ?d)))
        (rd ?d) = Return ((1, None), replicate 192 (), Bit 0 # LenSym 0 # DistSym 0xffffffff # rest)"
      by (simp add: script_defs)
    have r: "probDecode script (isRep ?d) (unat (state ?d))
        (Bit 0 # LenSym 0 # DistSym 0xffffffff # rest)
        = Return ((0, None), replicate 12 (), LenSym 0 # DistSym 0xffffffff # rest)"
      by (simp add: script_defs)
    have l: "lengthCodec_Decode script (lengthDecoder ?d) (LenSym 0 # DistSym 0xffffffff # rest)
        ((ucast (total_dd (dict ?d)) :: u32) AND posBitMask ?d) = ((0, None), (), DistSym 0xffffffff # rest)"
      by (simp add: script_defs)
    have di: "distCodec_Decode script (distDecoder ?d) 0 (DistSym 0xffffffff # rest)
        = ((0xffffffff, None), (), rest)"
      by (simp add: script_defs)
    have ne: "(1 :: u32) \<noteq> 0"
      by simp
    have "\<not> eof (dict ?d)"
      by (simp add: script_defs)
    with C1_end_of_stream_marker [OF loop refl refl m ne r l di refl refl]
    show ?thesis
      by (simp add: script_defs)
  qed
  show ?thesis
    using run [of 5 "[]"] run [of 5 "[Bit 0]"] run [of noUnpackLen "[]"]
    by (simp add: noUnpackLen_def)
qed

text \<open>\<open>decodeOp\<close> never calls \<open>applyDecoderDict\<close>.\<close>

lemma probDecode_ignores_apply:
  "probDecode (env\<lparr>applyDecoderDict := f\<rparr>) ps i r = probDecode env ps i r"
  by (simp add: probDecode_def)

lemma decodeLiteral_ignores_apply:
  "decodeLiteral (env\<lparr>applyDecoderDict := f\<rparr>) d = decodeLiteral env d"
  by (simp add: decodeLiteral_def)

lemma simpleMatch_ignores_apply:
  "decodeOp_simpleMatch (env\<lparr>applyDecoderDict := f\<rparr>) ps d = decodeOp_simpleMatch env ps d"
  by (simp add: decodeOp_simpleMatch_def Let_def
      cong: prod.case_cong option.case_cong if_cong)

lemma repLength_ignores_apply:
  "decodeOp_repLength (env\<lparr>applyDecoderDict := f\<rparr>) ps dist d = decodeOp_repLength env ps dist d"
  by (simp add: decodeOp_repLength_def)

lemma repG1_ignores_apply:
  "decodeOp_repG1 (env\<lparr>applyDecoderDict := f\<rparr>) d = decodeOp_repG1 env d"
  by (simp add: decodeOp_repG1_def probDecode_ignores_apply Let_def
      cong: go.case_cong prod.case_cong option.case_cong sum.case_cong if_cong)

lemma rep_ignores_apply:
  "decodeOp_rep (env\<lparr>applyDecoderDict := f\<rparr>) ps s2 d = decodeOp_rep env ps s2 d"
  by (simp add: decodeOp_rep_def probDecode_ignores_apply repG1_ignores_apply
      repLength_ignores_apply Let_def
      cong: go.case_cong prod.case_cong option.case_cong sum.case_cong if_cong)

lemma decodeOp_ignores_apply:
  "decodeOp (env\<lparr>applyDecoderDict := f\<rparr>) d = decodeOp env d"
  by (simp add: decodeOp_def probDecode_ignores_apply decodeLiteral_ignores_apply
      simpleMatch_ignores_apply rep_ignores_apply Let_def
      cong: go.case_cong prod.case_cong option.case_cong sum.case_cong if_cong)

text \<open>
  Claim C10. When a pass of \<open>fill\<close> rejects an operation because \<open>decodedLen\<close> plus the
  length of the operation exceeds \<open>unpackLen\<close> (which is then finite), the operation is
  not applied to the dictionary: \<open>fill\<close> returns the error "decoded stream too long" and
  the dictionary is the one from before the pass with only \<open>eof\<close> set, so its contents and
  its \<open>total\<close> are unchanged. The result is the same whatever \<open>applyDecoderDict\<close> would have
  done.
\<close>

theorem C10_rejected_op_not_applied:
  assumes "readable env (dict d) <s b_dd (dict d)"
    and "decodeOp env d = Return (Inr op, d1)"
    and "\<not> decodedLen d + Len op < decodedLen d"
    and "unpackLen d < decodedLen d + Len op"
  shows "fill_loop env d =
           Return (Some (errors_New ''decoded stream too long''),
                   d1\<lparr>dict := (dict d)\<lparr>eof := True\<rparr>\<rparr>)
       \<and> (\<forall>f. fill_loop (env\<lparr>applyDecoderDict := f\<rparr>) d = fill_loop env d)"
proof -
  have *: "fill_loop e d =
           Return (Some (errors_New ''decoded stream too long''),
                   d1\<lparr>dict := (dict d)\<lparr>eof := True\<rparr>\<rparr>)"
    if "readable e (dict d) <s b_dd (dict d)" and "decodeOp e d = Return (Inr op, d1)" for e
    using fill_loop_too_long [OF that assms(3,4)] .
  have "fill_loop (env\<lparr>applyDecoderDict := f\<rparr>) d = fill_loop env d" for f
    using * [of env] * [of "env\<lparr>applyDecoderDict := f\<rparr>"] assms(1,2)
    by (simp add: decodeOp_ignores_apply)
  then show ?thesis
    using * [of env] assms(1,2) by simp
qed

theorem C10_rejected_op_not_applied_witness:
  "returned (fill_loop script (newDecoder 1 [] [Bit 1, Bit 0, LenSym 0, DistSym 0]))
     = Some (Some (errors_New ''decoded stream too long''))
   \<and> map_option dict (final (fill_loop script (newDecoder 1 [] [Bit 1, Bit 0, LenSym 0, DistSym 0])))
     = Some \<lparr>eof = True, total_dd = 0, b_dd = 65536, hist = [], unread = 0, dictLen_x = 4096\<rparr>
   \<and> fill_loop (script\<lparr>applyDecoderDict := (\<lambda>op dd. (None, dd\<lparr>hist := [7]\<rparr>))\<rparr>)
        (newDecoder 1 [] [Bit 1, Bit 0, LenSym 0, DistSym 0])
     = fill_loop script (newDecoder 1 [] [Bit 1, Bit 0, LenSym 0, DistSym 0])"
proof -
  let ?d = "newDecoder 1 [] [Bit 1, Bit 0, LenSym 0, DistSym 0]"
  have loop: "readable script (dict ?d) <s b_dd (dict ?d)"
    by (simp add: script_defs)
  have op: "decodeOp script ?d = Return (Inr (rep_op 2 1), ?d\<lparr>rd := [], state := 7\<rparr>)"
    by (simp add: script_defs decodeOp_def decodeOp_simpleMatch_def Let_def updateStateMatch_def
        minLength_def minDistance_def)
  have a: "\<not> decodedLen ?d + Len (rep_op 2 1) < decodedLen ?d"
    by (simp add: script_defs)
  have b: "unpackLen ?d < decodedLen ?d + Len (rep_op 2 1)"
    by (simp add: script_defs)
  from C10_rejected_op_not_applied [OF loop op a b]
  have r: "fill_loop script ?d =
             Return (Some (errors_New ''decoded stream too long''),
                     ?d\<lparr>rd := [], state := 7, dict := (dict ?d)\<lparr>eof := True\<rparr>\<rparr>)"
    and i: "fill_loop (script\<lparr>applyDecoderDict := (\<lambda>op dd. (None, dd\<lparr>hist := [7]\<rparr>))\<rparr>) ?d
             = fill_loop script ?d"
    by simp_all
  show ?thesis
    unfolding i r by (simp add: returned_def final_def newDecoder_def)
qed

text \<open>
  What \<open>fill\<close> does to \<open>decodedLen\<close>: a call that returns nil after it changed
  \<open>decodedLen\<close> to exactly \<open>unpackLen\<close> has set \<open>eof\<close>.
\<close>

lemma fill_loop_eof_reached:
  "fill_loop env d = Return (None, d') \<Longrightarrow> decodedLen d' \<noteq> decodedLen d \<Longrightarrow>
   decodedLen d' = unpackLen d' \<Longrightarrow> eof (dict d')"
proof (induction d arbitrary: d' rule: measure_induct_rule [where f = "\<lambda>d. 2 ^ 64 - unat (decodedLen d)"])
  case (less d)
  show ?case
  proof (cases "readable env (dict d) <s b_dd (dict d)")
    case False
    with less.prems show ?thesis
      by (simp add: fill_loop_done)
  next
    case loop: True
    show ?thesis
    proof (cases "decodeOp env d")
      case (Panic s)
      with loop less.prems show ?thesis
        by (simp add: fill_loop_Panic)
    next
      case (Return x)
      obtain res d1 where x: "x = (res, d1)"
        by (cases x)
      have fr: "decodedLen d1 = decodedLen d" "unpackLen d1 = unpackLen d"
        using decodeOp_frame [of env d res d1] Return x by simp_all
      show ?thesis
      proof (cases res)
        case (Inl err)
        with loop Return x less.prems fr show ?thesis
          by (auto simp: fill_loop_Inl split: if_splits)
      next
        case (Inr op)
        then have dec: "decodeOp env d = Return (Inr op, d1)"
          using Return x by simp
        define n where "n = decodedLen d + Len op"
        obtain e dict' where ap: "applyDecoderDict env op (dict d1) = (e, dict')"
          by (cases "applyDecoderDict env op (dict d1)")
        show ?thesis
        proof (cases "n < decodedLen d \<or> unpackLen d < n")
          case True
          with loop dec less.prems fr show ?thesis
            by (auto simp: fill_loop_Inr Let_def n_def split: if_splits)
        next
          case ok: False
          then have lt: "decodedLen d < n"
            using pass_increases [OF dec] fr by (simp add: n_def)
          show ?thesis
          proof (cases "e = None \<and> n \<noteq> unpackLen d")
            case False
            with ok loop dec less.prems fr ap lt show ?thesis
              by (auto simp: fill_loop_Inr Let_def n_def split: if_splits option.splits)
          next
            case True
            let ?d2 = "d1\<lparr>decodedLen := n, dict := dict'\<rparr>"
            have rec: "fill_loop env ?d2 = Return (None, d')"
              using True ok loop dec less.prems ap fr
              by (simp add: fill_loop_Inr Let_def n_def)
            have "unpackLen d' = unpackLen ?d2"
              using fill_loop_invariant [OF rec] by simp
            then have ne: "decodedLen d' \<noteq> decodedLen ?d2"
              using True less.prems(3) fr by auto
            have "unat (decodedLen d) < unat n"
              using lt by (simp add: word_less_nat_alt)
            moreover have "unat n < 2 ^ 64"
              using unsigned_less [of n] by simp
            ultimately have "2 ^ 64 - unat (decodedLen ?d2) < 2 ^ 64 - unat (decodedLen d)"
              by simp
            from less.IH [OF this rec ne less.prems(3)] show ?thesis .
          qed
        qed
      qed
    qed
  qed
qed

lemma fill_invariant:
  "fill env d = Return (r, d') \<Longrightarrow>
   decodedLen d \<le> decodedLen d' \<and> unpackLen d' = unpackLen d
   \<and> (decodedLen d \<le> unpackLen d \<longrightarrow> decodedLen d' \<le> unpackLen d')"
  using fill_loop_invariant [of env d r d'] by (auto simp: fill_def split: if_splits)

lemma fill_eof_reached:
  "fill env d = Return (None, d') \<Longrightarrow> decodedLen d' \<noteq> decodedLen d \<Longrightarrow>
   decodedLen d' = unpackLen d' \<Longrightarrow> eof (dict d')"
  using fill_loop_eof_reached [of env d d'] by (auto simp: fill_def split: if_splits)

lemma no_wrap:
  "unat (a :: u64) + unat b < 2 ^ 64 \<Longrightarrow> unat (a + b) = unat a + unat b"
  by (simp add: unat_word_ariths)

lemma fill_loop_too_long_nat:
  assumes "readable env (dict d) <s b_dd (dict d)"
    and "decodeOp env d = Return (Inr op, d1)"
    and "unat (decodedLen d) + unat (Len op) < 2 ^ 64"
    and "unat (unpackLen d) < unat (decodedLen d) + unat (Len op)"
  shows "fill_loop env d =
           Return (Some (errors_New ''decoded stream too long''),
                   d1\<lparr>dict := (dict d)\<lparr>eof := True\<rparr>\<rparr>)"
proof (rule fill_loop_too_long [OF assms(1,2)])
  show "\<not> decodedLen d + Len op < decodedLen d"
    using assms(3) by (simp add: word_less_nat_alt no_wrap)
  show "unpackLen d < decodedLen d + Len op"
    using assms(3,4) by (simp add: word_less_nat_alt no_wrap)
qed

text \<open>Evaluation of \<open>decodeOp\<close> on the concrete decoder.\<close>

lemmas decode_defs = decodeOp_def decodeOp_simpleMatch_def decodeOp_rep_def decodeOp_repG1_def
  decodeOp_repLength_def decodeOp_repShift_def decodeLiteral_def Let_def updateStateMatch_def
  updateStateLiteral_def updateStateRep_def updateStateShortRep_def minLength_def minDistance_def

text \<open>
  Claim C4. \<open>decodedLen\<close> never decreases across \<open>fill\<close> and, once it is at most
  \<open>unpackLen\<close>, stays at most \<open>unpackLen\<close> (which \<open>fill\<close> does not change); an operation
  whose length would bring \<open>decodedLen\<close> beyond \<open>unpackLen\<close> makes \<open>fill\<close> fail with "decoded
  stream too long", provided that the sum does not wrap in \<open>uint64\<close>; and when \<open>fill\<close> has
  brought \<open>decodedLen\<close> to exactly \<open>unpackLen\<close> and returns nil, \<open>eof\<close> is set.

  The claim as written has the last part without the condition that \<open>fill\<close> returns nil.
  That fails: \<open>decodedLen\<close> is stored before the operation is applied to the dictionary,
  and when the application fails \<open>fill\<close> returns its error with \<open>eof\<close> unset. Below, the
  unpack length is 2 and the first operation is a match of length 2 at distance 1, for
  which the empty dictionary has no byte.
\<close>

theorem C4_decodedLen_bounded:
  "(fill env d = Return (r, d') \<longrightarrow>
      decodedLen d \<le> decodedLen d' \<and> unpackLen d' = unpackLen d
      \<and> (decodedLen d \<le> unpackLen d \<longrightarrow> decodedLen d' \<le> unpackLen d'))
   \<and> (readable env (dict d2) <s b_dd (dict d2) \<and> decodeOp env d2 = Return (Inr op, d3)
        \<and> unat (decodedLen d2) + unat (Len op) < 2 ^ 64
        \<and> unat (unpackLen d2) < unat (decodedLen d2) + unat (Len op) \<longrightarrow>
      fill_loop env d2 = Return (Some (errors_New ''decoded stream too long''),
                                 d3\<lparr>dict := (dict d2)\<lparr>eof := True\<rparr>\<rparr>))
   \<and> (fill env d4 = Return (None, d5) \<and> decodedLen d5 \<noteq> decodedLen d4
        \<and> decodedLen d5 = unpackLen d5 \<longrightarrow>
      eof (dict d5))"
  using fill_invariant [of env d r d'] fill_loop_too_long_nat [of env d2 op d3]
    fill_eof_reached [of env d4 d5]
  by blast

text \<open>A match of length 2 at distance 1 as the first operation, and a single literal.\<close>

lemma bad_match_op:
  "decodeOp script (newDecoder n [] [Bit 1, Bit 0, LenSym 0, DistSym 0])
     = Return (Inr (rep_op 2 1), (newDecoder n [] [Bit 1, Bit 0, LenSym 0, DistSym 0])\<lparr>rd := [], state := 7\<rparr>)"
  by (simp add: script_defs decode_defs)

lemma bad_match_fill:
  "fill script (newDecoder 2 [] [Bit 1, Bit 0, LenSym 0, DistSym 0])
     = Return (Some (errors_New ''invalid distance''),
               (newDecoder 2 [] [Bit 1, Bit 0, LenSym 0, DistSym 0])\<lparr>rd := [], state := 7, decodedLen := 2\<rparr>)"
proof -
  let ?d = "newDecoder 2 [] [Bit 1, Bit 0, LenSym 0, DistSym 0]"
  have loop: "readable script (dict ?d) <s b_dd (dict ?d)"
    by (simp add: script_defs)
  have "fill script ?d = fill_loop script ?d"
    by (simp add: fill_def newDecoder_def)
  also have "\<dots> = Return (Some (errors_New ''invalid distance''), ?d\<lparr>rd := [], state := 7, decodedLen := 2\<rparr>)"
    unfolding fill_loop_Inr [OF loop bad_match_op]
    by (simp add: script_defs)
  finally show ?thesis .
qed

lemma one_literal_op:
  "decodeOp script (newDecoder n [] [Bit 0, LitSym 65])
     = Return (Inr (lit_op 65), (newDecoder n [] [Bit 0, LitSym 65])\<lparr>rd := []\<rparr>)"
  by (simp add: script_defs decode_defs)

lemma one_literal_fill:
  "fill script (newDecoder 1 [] [Bit 0, LitSym 65])
     = Return (None, (newDecoder 1 [] [Bit 0, LitSym 65])
         \<lparr>rd := [], decodedLen := 1,
          dict := \<lparr>eof = True, total_dd = 1, b_dd = 65536, hist = [65], unread = 1,
                    dictLen_x = 4096\<rparr>\<rparr>)"
proof -
  let ?d = "newDecoder 1 [] [Bit 0, LitSym 65]"
  have loop: "readable script (dict ?d) <s b_dd (dict ?d)"
    by (simp add: script_defs)
  have "fill script ?d = fill_loop script ?d"
    by (simp add: fill_def newDecoder_def)
  also have "\<dots> = Return (None, ?d\<lparr>rd := [], decodedLen := 1,
          dict := \<lparr>eof = True, total_dd = 1, b_dd = 65536, hist = [65], unread = 1,
                    dictLen_x = 4096\<rparr>\<rparr>)"
    unfolding fill_loop_Inr [OF loop one_literal_op]
    by (simp add: script_defs)
  finally show ?thesis .
qed

theorem C4_decodedLen_bounded_witness:
  "returned (fill script (newDecoder 1 [] [Bit 0, LitSym 65])) = Some None
   \<and> map_option decodedLen (final (fill script (newDecoder 1 [] [Bit 0, LitSym 65]))) = Some 1
   \<and> map_option unpackLen (final (fill script (newDecoder 1 [] [Bit 0, LitSym 65]))) = Some 1
   \<and> map_option (eof \<circ> dict) (final (fill script (newDecoder 1 [] [Bit 0, LitSym 65]))) = Some True
   \<and> returned (fill_loop script (newDecoder 1 [] [Bit 1, Bit 0, LenSym 0, DistSym 0]))
       = Some (Some (errors_New ''decoded stream too long''))"
proof -
  let ?a = "newDecoder 1 [] [Bit 0, LitSym 65]"
  let ?a' = "?a\<lparr>rd := [], decodedLen := 1,
          dict := \<lparr>eof = True, total_dd = 1, b_dd = 65536, hist = [65], unread = 1,
                    dictLen_x = 4096\<rparr>\<rparr>"
  let ?b = "newDecoder 1 [] [Bit 1, Bit 0, LenSym 0, DistSym 0]"
  have loop: "readable script (dict ?b) <s b_dd (dict ?b)"
    by (simp add: script_defs)
  have nw: "unat (decodedLen ?b) + unat (Len (rep_op 2 1)) < 2 ^ 64"
    by (simp add: newDecoder_def)
  have gt: "unat (unpackLen ?b) < unat (decodedLen ?b) + unat (Len (rep_op 2 1))"
    by (simp add: newDecoder_def)
  have ne: "decodedLen ?a' \<noteq> decodedLen ?a"
    by (simp add: newDecoder_def)
  have eq: "decodedLen ?a' = unpackLen ?a'"
    by (simp add: newDecoder_def)
  from C4_decodedLen_bounded [of script ?a None ?a' ?b "rep_op 2 1" "?b\<lparr>rd := [], state := 7\<rparr>" ?a ?a']
    one_literal_fill bad_match_op [of 1] loop nw gt ne eq
  have "fill_loop script ?b = Return (Some (errors_New ''decoded stream too long''),
          ?b\<lparr>rd := [], state := 7, dict := (dict ?b)\<lparr>eof := True\<rparr>\<rparr>)"
    and "eof (dict ?a')" and "decodedLen ?a \<le> decodedLen ?a'"
    by simp_all
  then show ?thesis
    unfolding one_literal_fill by (simp add: returned_def final_def newDecoder_def)
qed

theorem C4_counterexample:
  "returned (fill script (newDecoder 2 [] [Bit 1, Bit 0, LenSym 0, DistSym 0]))
     = Some (Some (errors_New ''invalid distance''))
   \<and> map_option decodedLen (final (fill script (newDecoder 2 [] [Bit 1, Bit 0, LenSym 0, DistSym 0])))
     = Some 2
   \<and> map_option unpackLen (final (fill script (newDecoder 2 [] [Bit 1, Bit 0, LenSym 0, DistSym 0])))
     = Some 2
   \<and> map_option (eof \<circ> dict) (final (fill script (newDecoder 2 [] [Bit 1, Bit 0, LenSym 0, DistSym 0])))
     = Some False"
  unfolding bad_match_fill by (simp add: returned_def final_def newDecoder_def)

section \<open>Properties of Read\<close>

text \<open>Every result of the loop of \<open>Read\<close> has one of the three forms, by induction on its passes.\<close>

lemma Read_loop_ok:
  assumes "Read_loop env d len_p out = Some y"
  shows "Read_ok y"
proof (rule Read_loop.raw_induct [where P = "\<lambda>env d len_p out y. Read_ok y", OF _ assms])
  fix loop :: "('a, 'b, 'c, 'd, 'e, 'f) methods \<Rightarrow> ('a, 'b, 'c, 'd, 'e, 'f) Decoder \<Rightarrow> nat
      \<Rightarrow> byte list \<Rightarrow> ((byte list \<times> error option) \<times> ('a, 'b, 'c, 'd, 'e, 'f) Decoder) go option"
    and env d len_p out y
  assume IH: "\<And>env d len_p out y. loop env d len_p out = Some y \<Longrightarrow> Read_ok y"
    and body: "(if len_p < length out
      then Some (Panic ''slice bounds out of range'')
      else (case decoderDict_Read env (dict d) (len_p - length out) of
              ((bs, err), dict') \<Rightarrow>
                (let d = d\<lparr>dict := dict'\<rparr>;
                     out = out @ bs
                 in if err = Some io_EOF
                    then if length out \<le> 0
                         then Some (Return (([], Some io_EOF), d))
                         else Some (Return ((out, None), d))
                    else (case err of
                            Some e \<Rightarrow> Some (Return ((out, Some (fmt_Errorf_LZMA e)), d))
                          | None \<Rightarrow>
                              if length out = len_p
                              then Some (Return ((out, None), d))
                              else (case fill env d of
                                      Panic s \<Rightarrow> Some (Panic s)
                                    | Return (Some e, d) \<Rightarrow>
                                        Some (Return ((out, Some (fmt_Errorf_LZMA e)), d))
                                    | Return (None, d) \<Rightarrow> loop env d len_p out))))) = Some y"
  note 1 = IH body
  show "Read_ok y"
  proof (cases "len_p < length out")
    case True
    with 1(2) show ?thesis by (auto simp: Read_ok_def)
  next
    case False
    obtain bs err dict' where rd: "decoderDict_Read env (dict d) (len_p - length out) = ((bs, err), dict')"
      by (cases "decoderDict_Read env (dict d) (len_p - length out)") auto
    show ?thesis
    proof (cases "err = None \<and> length (out @ bs) \<noteq> len_p")
      case stop: False
      with 1(2) False rd show ?thesis
        by (auto simp: Read_ok_def Let_def split: if_splits option.splits)
    next
      case go_on: True
      show ?thesis
      proof (cases "fill env (d\<lparr>dict := dict'\<rparr>)")
        case (Panic s)
        with 1(2) False rd go_on show ?thesis
          by (auto simp: Read_ok_def Let_def)
      next
        case (Return x)
        obtain e d2 where x: "x = (e, d2)" by (cases x)
        show ?thesis
        proof (cases e)
          case None
          with 1(2) False rd go_on Return x have "loop env d2 len_p (out @ bs) = Some y"
            by (simp add: Let_def)
          then show ?thesis by (rule 1(1))
        next
          case (Some a)
          with 1(2) False rd go_on Return x show ?thesis
            by (auto simp: Read_ok_def Let_def)
        qed
      qed
    qed
  qed
qed

text \<open>One pass of the loop of Read, by the result of the dictionary's Read and of fill.\<close>

lemma Read_loop_EOF:
  assumes "length out \<le> len_p"
    and "decoderDict_Read env (dict d) (len_p - length out) = ((bs, Some io_EOF), dict')"
  shows "Read_loop env d len_p out =
           Some (Return (if out @ bs = [] then ([], Some io_EOF) else (out @ bs, None),
                         d\<lparr>dict := dict'\<rparr>))"
  using assms by (subst Read_loop.simps) (auto simp: Let_def)

lemma Read_loop_Read_error:
  assumes "length out \<le> len_p"
    and "decoderDict_Read env (dict d) (len_p - length out) = ((bs, Some e), dict')"
    and "e \<noteq> io_EOF"
  shows "Read_loop env d len_p out =
           Some (Return ((out @ bs, Some (fmt_Errorf_LZMA e)), d\<lparr>dict := dict'\<rparr>))"
  using assms by (subst Read_loop.simps) (simp add: Let_def)

lemma Read_loop_full:
  assumes "length out \<le> len_p"
    and "decoderDict_Read env (dict d) (len_p - length out) = ((bs, None), dict')"
    and "length (out @ bs) = len_p"
  shows "Read_loop env d len_p out = Some (Return ((out @ bs, None), d\<lparr>dict := dict'\<rparr>))"
  using assms by (subst Read_loop.simps) (simp add: Let_def)

lemma Read_loop_fill_error:
  assumes "length out \<le> len_p"
    and "decoderDict_Read env (dict d) (len_p - length out) = ((bs, None), dict')"
    and "length (out @ bs) \<noteq> len_p"
    and "fill env (d\<lparr>dict := dict'\<rparr>) = Return (Some e, d2)"
  shows "Read_loop env d len_p out = Some (Return ((out @ bs, Some (fmt_Errorf_LZMA e)), d2))"
  using assms by (subst Read_loop.simps) (simp add: Let_def)

lemma Read_loop_continue:
  assumes "length out \<le> len_p"
    and "decoderDict_Read env (dict d) (len_p - length out) = ((bs, None), dict')"
    and "length (out @ bs) \<noteq> len_p"
    and "fill env (d\<lparr>dict := dict'\<rparr>) = Return (None, d2)"
  shows "Read_loop env d len_p out = Read_loop env d2 len_p (out @ bs)"
  using assms by (subst Read_loop.simps) (simp add: Let_def)

text \<open>The two calls of \<open>Read\<close> on the stream that ends after one literal.\<close>

lemma end_of_input:
  assumes "rd d = []" and "isMatch d = replicate 192 ()" and "state d = 0" and "posBitMask d = 3"
  shows "decodeOp script d = Return (Inl io_EOF, d)"
proof -
  have "unat (push_bit maxPosBits (0 :: u32) OR (ucast (total_dd (dict d)) AND 3)) < 192"
  proof -
    have "(ucast (total_dd (dict d)) AND (3 :: u32)) \<le> 3"
      by (rule word_and_le1)
    then have "unat (ucast (total_dd (dict d)) AND (3 :: u32)) \<le> 3"
      by (simp add: word_le_nat_alt)
    then show ?thesis by simp
  qed
  then show ?thesis
    using assms by (simp add: decodeOp_def script_def probDecode_def Let_def replicate_update_same)
qed

lemma truncated_fill: "fill script truncated
    = Return (Some (errors_New ''unexpected end of compressed stream''), truncated1)"
proof -
  have loop: "readable script (dict truncated) <s b_dd (dict truncated)"
    by (simp add: truncated_def script_defs)
  have op: "decodeOp script truncated = Return (Inr (lit_op 65), truncated\<lparr>rd := []\<rparr>)"
    unfolding truncated_def by (rule one_literal_op)
  have loop1: "readable script (dict truncated1) <s b_dd (dict truncated1)"
    by (simp add: truncated1_def script_defs)
  have op1: "decodeOp script truncated1 = Return (Inl io_EOF, truncated1)"
    by (rule end_of_input) (simp_all add: truncated1_def truncated_def newDecoder_def)
  have "fill script truncated = fill_loop script truncated"
    by (simp add: fill_def truncated_def newDecoder_def)
  also have "\<dots> = fill_loop script truncated1"
    unfolding fill_loop_Inr [OF loop op]
    by (simp add: truncated1_def truncated_def script_defs)
  also have "\<dots> = Return (Some (errors_New ''unexpected end of compressed stream''), truncated1)"
    unfolding fill_loop_Inl [OF loop1 op1] by simp
  finally show ?thesis .
qed

lemma truncated2_fill: "fill script truncated2
    = Return (Some (errors_New ''unexpected end of compressed stream''), truncated2)"
proof -
  have loop: "readable script (dict truncated2) <s b_dd (dict truncated2)"
    by (simp add: truncated2_def truncated1_def script_defs)
  have op: "decodeOp script truncated2 = Return (Inl io_EOF, truncated2)"
    by (rule end_of_input) (simp_all add: truncated2_def truncated1_def truncated_def newDecoder_def)
  have "fill script truncated2 = fill_loop script truncated2"
    by (simp add: fill_def truncated2_def truncated1_def)
  also have "\<dots> = Return (Some (errors_New ''unexpected end of compressed stream''), truncated2)"
    unfolding fill_loop_Inl [OF loop op] by simp
  finally show ?thesis .
qed

lemma truncated_Read: "Read script truncated 4
    = Some (Return (([], Some (errors_New ''LZMA - unexpected end of compressed stream'')), truncated1))"
proof -
  have le: "length ([] :: byte list) \<le> 4"
    by simp
  have rd: "decoderDict_Read script (dict truncated) (4 - length ([] :: byte list))
      = (([], None), dict truncated)"
    by (simp add: truncated_def script_defs)
  have ne: "length (([] :: byte list) @ []) \<noteq> 4"
    by simp
  have fl: "fill script (truncated\<lparr>dict := dict truncated\<rparr>)
      = Return (Some (errors_New ''unexpected end of compressed stream''), truncated1)"
    by (simp add: truncated_fill)
  from Read_loop_fill_error [OF le rd ne fl] show ?thesis
    by (simp add: Read_def fmt_Errorf_LZMA_def)
qed

lemma truncated1_Read: "Read script truncated1 4
    = Some (Return (([65], Some (errors_New ''LZMA - unexpected end of compressed stream'')), truncated2))"
proof -
  have le: "length ([] :: byte list) \<le> 4"
    by simp
  have rd: "decoderDict_Read script (dict truncated1) (4 - length ([] :: byte list))
      = (([65], None), dict truncated2)"
    by (simp add: truncated2_def truncated1_def script_defs)
  have ne: "length (([] :: byte list) @ [65]) \<noteq> 4"
    by simp
  have fl: "fill script (truncated1\<lparr>dict := dict truncated2\<rparr>)
      = Return (Some (errors_New ''unexpected end of compressed stream''), truncated2)"
    using truncated2_fill by (simp add: truncated2_def)
  from Read_loop_fill_error [OF le rd ne fl] show ?thesis
    by (simp add: Read_def fmt_Errorf_LZMA_def)
qed

text \<open>
  Claim C7. \<open>Read\<close> returns \<open>io.EOF\<close> only together with zero bytes, and every error it
  returns is \<open>io.EOF\<close> or carries the prefix "LZMA - "; when the dictionary's \<open>Read\<close>
  reports \<open>io.EOF\<close> after at least one byte was copied into the caller's slice, the call
  returns the bytes and nil; an error other than \<open>io.EOF\<close> from the dictionary's \<open>Read\<close>,
  and every error from \<open>fill\<close>, is returned with the prefix, together with the bytes copied
  so far.

  The claim as written promises a nil error whenever at least one byte was copied. That
  fails: an error of \<open>fill\<close> is returned with the bytes that the same call already copied.
  Below, the stream ends after one literal although five bytes were announced; the first
  call returns no byte and the error, the second the literal and the error again.
\<close>

theorem C7_Read_results:
  "(Read env d len_p = Some (Return ((bs, err), d')) \<longrightarrow>
      (err = Some io_EOF \<longrightarrow> bs = [])
      \<and> (err = None \<or> err = Some io_EOF \<or> (\<exists>e. err = Some (fmt_Errorf_LZMA e))))
   \<and> (length out1 \<le> n1
        \<and> decoderDict_Read env1 (dict d1) (n1 - length out1) = ((bs1, Some io_EOF), dict1)
        \<and> out1 @ bs1 \<noteq> [] \<longrightarrow>
      Read_loop env1 d1 n1 out1 = Some (Return ((out1 @ bs1, None), d1\<lparr>dict := dict1\<rparr>)))
   \<and> (length out2 \<le> n2
        \<and> decoderDict_Read env2 (dict d2) (n2 - length out2) = ((bs2, Some e2), dict2)
        \<and> e2 \<noteq> io_EOF \<longrightarrow>
      Read_loop env2 d2 n2 out2
        = Some (Return ((out2 @ bs2, Some (fmt_Errorf_LZMA e2)), d2\<lparr>dict := dict2\<rparr>)))
   \<and> (length out3 \<le> n3
        \<and> decoderDict_Read env3 (dict d3) (n3 - length out3) = ((bs3, None), dict3)
        \<and> length (out3 @ bs3) \<noteq> n3
        \<and> fill env3 (d3\<lparr>dict := dict3\<rparr>) = Return (Some e3, d4) \<longrightarrow>
      Read_loop env3 d3 n3 out3 = Some (Return ((out3 @ bs3, Some (fmt_Errorf_LZMA e3)), d4)))"
proof (intro conjI impI)
  assume r: "Read env d len_p = Some (Return ((bs, err), d'))"
  then have ok: "Read_ok (Return ((bs, err), d'))"
    unfolding Read_def by (rule Read_loop_ok)
  { assume "err = Some io_EOF"
    with ok show "bs = []"
      by (auto simp: Read_ok_def fmt_Errorf_LZMA_def) }
  from ok show "err = None \<or> err = Some io_EOF \<or> (\<exists>e. err = Some (fmt_Errorf_LZMA e))"
    by (auto simp: Read_ok_def split: option.splits)
next
  assume "length out1 \<le> n1
        \<and> decoderDict_Read env1 (dict d1) (n1 - length out1) = ((bs1, Some io_EOF), dict1)
        \<and> out1 @ bs1 \<noteq> []"
  then show "Read_loop env1 d1 n1 out1 = Some (Return ((out1 @ bs1, None), d1\<lparr>dict := dict1\<rparr>))"
    using Read_loop_EOF [of out1 n1 env1 d1 bs1 dict1] by simp
next
  assume "length out2 \<le> n2
        \<and> decoderDict_Read env2 (dict d2) (n2 - length out2) = ((bs2, Some e2), dict2)
        \<and> e2 \<noteq> io_EOF"
  then show "Read_loop env2 d2 n2 out2
        = Some (Return ((out2 @ bs2, Some (fmt_Errorf_LZMA e2)), d2\<lparr>dict := dict2\<rparr>))"
    using Read_loop_Read_error [of out2 n2 env2 d2 bs2 e2 dict2] by simp
next
  assume "length out3 \<le> n3
        \<and> decoderDict_Read env3 (dict d3) (n3 - length out3) = ((bs3, None), dict3)
        \<and> length (out3 @ bs3) \<noteq> n3
        \<and> fill env3 (d3\<lparr>dict := dict3\<rparr>) = Return (Some e3, d4)"
  then show "Read_loop env3 d3 n3 out3 = Some (Return ((out3 @ bs3, Some (fmt_Errorf_LZMA e3)), d4))"
    using Read_loop_fill_error [of out3 n3 env3 d3 bs3 dict3 e3 d4] by simp
qed

theorem C7_Read_results_witness:
  "Read script truncated 4
     = Some (Return (([], Some (fmt_Errorf_LZMA (errors_New ''unexpected end of compressed stream''))),
                     truncated1))
   \<and> Read_loop script finished 4 [65] = Some (Return (([65], None), finished))
   \<and> Read_loop script_closed truncated 4 []
       = Some (Return (([], Some (fmt_Errorf_LZMA (errors_New ''closed''))), truncated))
   \<and> Read_loop script truncated1 4 []
       = Some (Return (([65], Some (fmt_Errorf_LZMA (errors_New ''unexpected end of compressed stream''))),
                       truncated2))"
proof -
  have r: "Read script truncated 4
     = Some (Return (([], Some (fmt_Errorf_LZMA (errors_New ''unexpected end of compressed stream''))),
                     truncated1))"
    by (simp add: truncated_Read fmt_Errorf_LZMA_def)
  have a1: "length [65 :: byte] \<le> 4"
    by simp
  have a2: "decoderDict_Read script (dict finished) (4 - length [65 :: byte])
      = (([], Some io_EOF), dict finished)"
    by (simp add: finished_def script_defs)
  have a3: "[65 :: byte] @ [] \<noteq> []"
    by simp
  have b1: "length ([] :: byte list) \<le> 4"
    by simp
  have b2: "decoderDict_Read script_closed (dict truncated) (4 - length ([] :: byte list))
      = (([], Some (errors_New ''closed'')), dict truncated)"
    by (simp add: script_closed_def)
  have b3: "errors_New ''closed'' \<noteq> io_EOF"
    by simp
  have c2: "decoderDict_Read script (dict truncated1) (4 - length ([] :: byte list))
      = (([65], None), dict truncated2)"
    by (simp add: truncated2_def truncated1_def script_defs)
  have c3: "length (([] :: byte list) @ [65]) \<noteq> 4"
    by simp
  have c4: "fill script (truncated1\<lparr>dict := dict truncated2\<rparr>)
      = Return (Some (errors_New ''unexpected end of compressed stream''), truncated2)"
    using truncated2_fill by (simp add: truncated2_def)
  from C7_Read_results [of script truncated 4 "[]"
      "Some (fmt_Errorf_LZMA (errors_New ''unexpected end of compressed stream''))" truncated1
      "[65]" 4 script finished "[]" "dict finished"
      "[]" 4 script_closed truncated "[]" "errors_New ''closed''" "dict truncated"
      "[]" 4 script truncated1 "[65]" "dict truncated2"
      "errors_New ''unexpected end of compressed stream''" truncated2]
    r a1 a2 a3 b1 b2 b3 c2 c3 c4
  show ?thesis
    by simp
qed

theorem C7_counterexample:
  "Read script truncated 4
     = Some (Return (([], Some (errors_New ''LZMA - unexpected end of compressed stream'')),
                     truncated1))
   \<and> Read script truncated1 4
     = Some (Return (([65], Some (errors_New ''LZMA - unexpected end of compressed stream'')),
                     truncated2))"
  by (simp add: truncated_Read truncated1_Read)

text \<open>Once \<open>eof\<close> is set, \<open>fill\<close> returns nil and decodes nothing.\<close>

lemma fill_eof:
  "eof (dict d) \<Longrightarrow> fill env d = Return (None, d)"
  by (simp add: fill_def)

text \<open>
  Claim C8. The decoder keeps no record of an error that \<open>Read\<close> returned; a later call
  starts from the state the failed call left. When \<open>fill\<close> fails with "decoded stream too
  long" it has set \<open>eof\<close>: every later \<open>fill\<close> returns nil without decoding, and a later
  \<open>Read\<close> for which the dictionary's \<open>Read\<close> reports \<open>io.EOF\<close> and no byte returns \<open>io.EOF\<close>.

  The claim as written says that every later call returns the same error. That fails:
  below, the stream announces one byte and starts with a match of length 2; the first
  \<open>Read\<close> returns "LZMA - decoded stream too long" and the second returns \<open>io.EOF\<close>.
\<close>

theorem C8_no_record_of_error:
  assumes "readable env (dict d) <s b_dd (dict d)"
    and "decodeOp env d = Return (Inr op, d1)"
    and "\<not> decodedLen d + Len op < decodedLen d"
    and "unpackLen d < decodedLen d + Len op"
    and "d2 = d1\<lparr>dict := (dict d)\<lparr>eof := True\<rparr>\<rparr>"
    and "decoderDict_Read env (dict d2) len_p = (([], Some io_EOF), dict')"
  shows "fill_loop env d = Return (Some (errors_New ''decoded stream too long''), d2)
       \<and> fill env d2 = Return (None, d2)
       \<and> Read env d2 len_p = Some (Return (([], Some io_EOF), d2\<lparr>dict := dict'\<rparr>))"
proof -
  have "fill_loop env d = Return (Some (errors_New ''decoded stream too long''), d2)"
    using fill_loop_too_long [OF assms(1-4)] assms(5) by simp
  moreover have "fill env d2 = Return (None, d2)"
    using assms(5) by (simp add: fill_eof)
  moreover have "Read env d2 len_p = Some (Return (([], Some io_EOF), d2\<lparr>dict := dict'\<rparr>))"
    unfolding Read_def using Read_loop_EOF [of "[]" len_p env d2 "[]" dict'] assms(6) by simp
  ultimately show ?thesis by simp
qed

text \<open>The two calls of \<open>Read\<close> on the stream that is too long.\<close>

lemma overlong_op:
  "decodeOp script overlong = Return (Inr (rep_op 2 1), overlong\<lparr>rd := [], state := 7\<rparr>)"
  unfolding overlong_def by (rule bad_match_op)

lemma overlong_fill:
  "fill script overlong = Return (Some (errors_New ''decoded stream too long''), overlong1)"
proof -
  have loop: "readable script (dict overlong) <s b_dd (dict overlong)"
    by (simp add: overlong_def script_defs)
  have a: "\<not> decodedLen overlong + Len (rep_op 2 1) < decodedLen overlong"
    by (simp add: overlong_def newDecoder_def)
  have b: "unpackLen overlong < decodedLen overlong + Len (rep_op 2 1)"
    by (simp add: overlong_def newDecoder_def)
  have "fill script overlong = fill_loop script overlong"
    by (simp add: fill_def overlong_def newDecoder_def)
  then show ?thesis
    using fill_loop_too_long [OF loop overlong_op a b] by (simp add: overlong1_def)
qed

lemma overlong_Read:
  "Read script overlong 4
     = Some (Return (([], Some (errors_New ''LZMA - decoded stream too long'')), overlong1))"
proof -
  have le: "length ([] :: byte list) \<le> 4"
    by simp
  have rd: "decoderDict_Read script (dict overlong) (4 - length ([] :: byte list))
      = (([], None), dict overlong)"
    by (simp add: overlong_def script_defs)
  have ne: "length (([] :: byte list) @ []) \<noteq> 4"
    by simp
  have fl: "fill script (overlong\<lparr>dict := dict overlong\<rparr>)
      = Return (Some (errors_New ''decoded stream too long''), overlong1)"
    by (simp add: overlong_fill)
  from Read_loop_fill_error [OF le rd ne fl] show ?thesis
    by (simp add: Read_def fmt_Errorf_LZMA_def)
qed

lemma overlong1_Read:
  "Read script overlong1 4 = Some (Return (([], Some io_EOF), overlong1))"
proof -
  have rd: "decoderDict_Read script (dict overlong1) (4 - length ([] :: byte list))
      = (([], Some io_EOF), dict overlong1)"
    by (simp add: overlong1_def overlong_def script_defs)
  from Read_loop_EOF [OF _ rd] show ?thesis
    by (simp add: Read_def)
qed

theorem C8_no_record_of_error_witness:
  "fill_loop script overlong = Return (Some (errors_New ''decoded stream too long''), overlong1)
   \<and> fill script overlong1 = Return (None, overlong1)
   \<and> Read script overlong1 4 = Some (Return (([], Some io_EOF), overlong1))"
proof -
  have loop: "readable script (dict overlong) <s b_dd (dict overlong)"
    by (simp add: overlong_def script_defs)
  have a: "\<not> decodedLen overlong + Len (rep_op 2 1) < decodedLen overlong"
    by (simp add: overlong_def newDecoder_def)
  have b: "unpackLen overlong < decodedLen overlong + Len (rep_op 2 1)"
    by (simp add: overlong_def newDecoder_def)
  have c: "overlong1 = overlong\<lparr>rd := [], state := 7\<rparr>\<lparr>dict := (dict overlong)\<lparr>eof := True\<rparr>\<rparr>"
    by (simp add: overlong1_def)
  have rd: "decoderDict_Read script (dict overlong1) 4 = (([], Some io_EOF), dict overlong1)"
    by (simp add: overlong1_def overlong_def script_defs)
  from C8_no_record_of_error [OF loop overlong_op a b c rd] show ?thesis
    by simp
qed

theorem C8_counterexample:
  "Read script overlong 4
     = Some (Return (([], Some (errors_New ''LZMA - decoded stream too long'')), overlong1))
   \<and> Read script overlong1 4 = Some (Return (([], Some io_EOF), overlong1))
   \<and> errors_New ''LZMA - decoded stream too long'' \<noteq> io_EOF"
  by (simp add: overlong_Read overlong1_Read)

section \<open>Properties of the history of distances\<close>

text \<open>\<open>decodeOp\<close> on the decoder with the history 1, 2, 3, 4, one stream for each branch.\<close>

lemmas rep_defs = repDecoder_def posState_of_def state2_of_def bitOf_def

lemma rep_example_rep1: "decodeOp script (repDecoder [Bit 1, Bit 1, Bit 1, Bit 0, LenSym 0])
    = Return (Inr (rep_op 2 3), (repDecoder [Bit 1, Bit 1, Bit 1, Bit 0, LenSym 0])\<lparr>rd := [], rep := (2, 1, 3, 4), state := 11\<rparr>)"
  by (simp add: rep_defs script_defs decode_defs)

lemma rep_example_match: "decodeOp script (repDecoder [Bit 1, Bit 0, LenSym 0, DistSym 5])
    = Return (Inr (rep_op 2 6), (repDecoder [Bit 1, Bit 0, LenSym 0, DistSym 5])\<lparr>rd := [], rep := (5, 1, 2, 3), state := 10\<rparr>)"
  by (simp add: rep_defs script_defs decode_defs)

lemma rep_example_short: "decodeOp script (repDecoder [Bit 1, Bit 1, Bit 0, Bit 0])
    = Return (Inr (rep_op 1 2), (repDecoder [Bit 1, Bit 1, Bit 0, Bit 0])\<lparr>rd := [], state := 11\<rparr>)"
  by (simp add: rep_defs script_defs decode_defs)

lemma rep_example_rep2: "decodeOp script (repDecoder [Bit 1, Bit 1, Bit 1, Bit 1, Bit 0, LenSym 0])
    = Return (Inr (rep_op 2 4), (repDecoder [Bit 1, Bit 1, Bit 1, Bit 1, Bit 0, LenSym 0])\<lparr>rd := [], rep := (3, 1, 2, 4), state := 11\<rparr>)"
  by (simp add: rep_defs script_defs decode_defs)

lemma rep_example_rep3: "decodeOp script (repDecoder [Bit 1, Bit 1, Bit 1, Bit 1, Bit 1, LenSym 0])
    = Return (Inr (rep_op 2 5), (repDecoder [Bit 1, Bit 1, Bit 1, Bit 1, Bit 1, LenSym 0])\<lparr>rd := [], rep := (4, 1, 2, 3), state := 11\<rparr>)"
  by (simp add: rep_defs script_defs decode_defs)

text \<open>
  The history after \<open>decodeOp\<close>, branch by branch. The branch is fixed by the bits that
  \<open>isMatch\<close>, \<open>isRep\<close>, \<open>isRepG0\<close>, \<open>isRepG1\<close> and \<open>isRepG2\<close> decode, each from the range
  decoder that the decoding before it left.
\<close>

lemma bitOf_Some:
  assumes "bitOf env ps i r = Some (b, r')"
  obtains ps' where "probDecode env ps i r = Return ((b, None), ps', r')"
  using assms by (auto simp: bitOf_def split: go.splits prod.splits option.splits)

lemma repLength_rep: "rep (snd (decodeOp_repLength env ps dist d)) = rep d"
  by (simp add: decodeOp_repLength_def Let_def split: prod.splits option.splits)

lemma rep_tuple: "r = (rep_get r 0, rep_get r 1, rep_get r 2, rep_get r 3)"
  by (cases r) simp

lemma after_simpleMatch:
  assumes "bitOf env (isMatch d) (unat (state2_of d)) (rd d) = Some (bm, ra)" and "bm \<noteq> 0"
    and "bitOf env (isRep d) (unat (state d)) ra = Some (0, rb)"
    and "lengthCodec_Decode env (lengthDecoder d) rb (posState_of d) = ((l, None), len', rc)"
    and "distCodec_Decode env (distDecoder d) l rc = ((dist, e), dist', re)"
  shows "map_option rep (final (decodeOp env d))
           = Some (dist, rep_get (rep d) 0, rep_get (rep d) 1, rep_get (rep d) 2)"
proof -
  obtain psm where m: "probDecode env (isMatch d) (unat (state2_of d)) (rd d) = Return ((bm, None), psm, ra)"
    using assms(1) by (rule bitOf_Some)
  obtain psr where r: "probDecode env (isRep d) (unat (state d)) ra = Return ((0, None), psr, rb)"
    using assms(3) by (rule bitOf_Some)
  obtain r0 r1 r2 r3 where t: "rep d = (r0, r1, r2, r3)"
    by (cases "rep d") auto
  show ?thesis
    using m r assms(2,4,5)
    by (simp add: decodeOp_def decodeOp_simpleMatch_def Let_def final_def t
        state2_of_def posState_of_def split: option.splits)
qed

lemma after_rep0:
  assumes "bitOf env (isMatch d) (unat (state2_of d)) (rd d) = Some (bm, ra)" and "bm \<noteq> 0"
    and "bitOf env (isRep d) (unat (state d)) ra = Some (br, rb)" and "br \<noteq> 0"
    and "bitOf env (isRepG0 d) (unat (state d)) rb = Some (0, rc)"
    and "bitOf env (isRepG0Long d) (unat (state2_of d)) rc = Some (bl, re)"
  shows "map_option rep (final (decodeOp env d)) = Some (rep d)"
proof -
  obtain psm where m: "probDecode env (isMatch d) (unat (state2_of d)) (rd d) = Return ((bm, None), psm, ra)"
    using assms(1) by (rule bitOf_Some)
  obtain psr where r: "probDecode env (isRep d) (unat (state d)) ra = Return ((br, None), psr, rb)"
    using assms(3) by (rule bitOf_Some)
  obtain ps0 where g0: "probDecode env (isRepG0 d) (unat (state d)) rb = Return ((0, None), ps0, rc)"
    using assms(5) by (rule bitOf_Some)
  obtain psl where gl: "probDecode env (isRepG0Long d) (unat (state2_of d)) rc = Return ((bl, None), psl, re)"
    using assms(6) by (rule bitOf_Some)
  have "rep (snd (decodeOp_repLength env ps x d')) = rep d" if "rep d' = rep d" for ps x d'
    using that by (simp add: repLength_rep)
  then show ?thesis
    using m r g0 gl assms(2,4)
    by (simp add: decodeOp_def decodeOp_rep_def Let_def final_def
        state2_of_def posState_of_def split_beta)
qed


lemma after_repG1:
  assumes "bitOf env (isMatch d) (unat (state2_of d)) (rd d) = Some (bm, ra)" and "bm \<noteq> 0"
    and "bitOf env (isRep d) (unat (state d)) ra = Some (br, rb)" and "br \<noteq> 0"
    and "bitOf env (isRepG0 d) (unat (state d)) rb = Some (b0, rc)" and "b0 \<noteq> 0"
    and "bitOf env (isRepG1 d) (unat (state d)) rc = Some (b1, re)"
  shows "b1 = 0 \<Longrightarrow> map_option rep (final (decodeOp env d))
           = Some (rep_get (rep d) 1, rep_get (rep d) 0, rep_get (rep d) 2, rep_get (rep d) 3)"
    and "b1 \<noteq> 0 \<Longrightarrow> bitOf env (isRepG2 d) (unat (state d)) re = Some (0, rf) \<Longrightarrow>
         map_option rep (final (decodeOp env d))
           = Some (rep_get (rep d) 2, rep_get (rep d) 0, rep_get (rep d) 1, rep_get (rep d) 3)"
    and "b1 \<noteq> 0 \<Longrightarrow> bitOf env (isRepG2 d) (unat (state d)) re = Some (b2, rf) \<Longrightarrow> b2 \<noteq> 0 \<Longrightarrow>
         map_option rep (final (decodeOp env d))
           = Some (rep_get (rep d) 3, rep_get (rep d) 0, rep_get (rep d) 1, rep_get (rep d) 2)"
proof -
  obtain psm where m: "probDecode env (isMatch d) (unat (state2_of d)) (rd d) = Return ((bm, None), psm, ra)"
    using assms(1) by (rule bitOf_Some)
  obtain psr where r: "probDecode env (isRep d) (unat (state d)) ra = Return ((br, None), psr, rb)"
    using assms(3) by (rule bitOf_Some)
  obtain ps0 where g0: "probDecode env (isRepG0 d) (unat (state d)) rb = Return ((b0, None), ps0, rc)"
    using assms(5) by (rule bitOf_Some)
  obtain ps1 where g1: "probDecode env (isRepG1 d) (unat (state d)) rc = Return ((b1, None), ps1, re)"
    using assms(7) by (rule bitOf_Some)
  obtain r0 r1 r2 r3 where t: "rep d = (r0, r1, r2, r3)"
    by (cases "rep d") auto
  have len: "rep (snd (decodeOp_repLength env ps x d')) = rep d'" for ps x d'
    by (simp add: repLength_rep)
  note defs = decodeOp_def decodeOp_rep_def decodeOp_repG1_def decodeOp_repShift_def Let_def
    state2_of_def posState_of_def final_def split_beta
  { assume "b1 = 0"
    then show "map_option rep (final (decodeOp env d))
           = Some (rep_get (rep d) 1, rep_get (rep d) 0, rep_get (rep d) 2, rep_get (rep d) 3)"
      using m r g0 g1 assms(2,4,6) by (simp add: defs len t) }
  { assume "b1 \<noteq> 0" and "bitOf env (isRepG2 d) (unat (state d)) re = Some (0, rf)"
    then obtain ps2 where g2: "probDecode env (isRepG2 d) (unat (state d)) re = Return ((0, None), ps2, rf)"
      using bitOf_Some by metis
    show "map_option rep (final (decodeOp env d))
           = Some (rep_get (rep d) 2, rep_get (rep d) 0, rep_get (rep d) 1, rep_get (rep d) 3)"
      using m r g0 g1 g2 assms(2,4,6) \<open>b1 \<noteq> 0\<close> by (simp add: defs len t) }
  { assume "b1 \<noteq> 0" and "bitOf env (isRepG2 d) (unat (state d)) re = Some (b2, rf)" and "b2 \<noteq> 0"
    then obtain ps2 where g2: "probDecode env (isRepG2 d) (unat (state d)) re = Return ((b2, None), ps2, rf)"
      using bitOf_Some by metis
    show "map_option rep (final (decodeOp env d))
           = Some (rep_get (rep d) 3, rep_get (rep d) 0, rep_get (rep d) 1, rep_get (rep d) 2)"
      using m r g0 g1 g2 assms(2,4,6) \<open>b1 \<noteq> 0\<close> \<open>b2 \<noteq> 0\<close> by (simp add: defs len t) }
qed

text \<open>
  Claim C3. The history \<open>rep[0..3]\<close> after \<open>decodeOp\<close>, with \<open>r0, r1, r2, r3\<close> the history
  before it. On a simple match whose length was decoded: \<open>(dist, r0, r1, r2)\<close>, with \<open>dist\<close>
  the value that the distance codec returned. On a short rep and on a rep0 with a
  length: unchanged. On rep1 (\<open>isRepG1\<close> decodes 0): \<open>(r1, r0, r2, r3)\<close>, that is
  \<open>rep[1] <- rep[0]\<close> and \<open>rep[0] <- r1\<close> only. On rep2 (\<open>isRepG2\<close> decodes 0):
  \<open>(r2, r0, r1, r3)\<close>. On rep3: \<open>(r3, r0, r1, r2)\<close>.

  The claim as written has the shift \<open>rep[2] <- rep[1]\<close> in the case rep1 too. That fails:
  the assignment stands in the branch of rep2 and rep3 only (line 357), and after rep1 on
  the history 1, 2, 3, 4 the history is 2, 1, 3, 4, where \<open>rep[2]\<close> is still 3.
\<close>

theorem C3_rep_history:
  "(bitOf env (isMatch da) (unat (state2_of da)) (rd da) = Some (bma, ram) \<and> bma \<noteq> 0
      \<and> bitOf env (isRep da) (unat (state da)) ram = Some (0, rar)
      \<and> lengthCodec_Decode env (lengthDecoder da) rar (posState_of da) = ((l, None), len', ral)
      \<and> distCodec_Decode env (distDecoder da) l ral = ((dist, e), dist', rad) \<longrightarrow>
    map_option rep (final (decodeOp env da))
      = Some (dist, rep_get (rep da) 0, rep_get (rep da) 1, rep_get (rep da) 2))
   \<and> (bitOf env (isMatch db) (unat (state2_of db)) (rd db) = Some (bmb, rbm) \<and> bmb \<noteq> 0
      \<and> bitOf env (isRep db) (unat (state db)) rbm = Some (brb, rbr) \<and> brb \<noteq> 0
      \<and> bitOf env (isRepG0 db) (unat (state db)) rbr = Some (0, rb0)
      \<and> bitOf env (isRepG0Long db) (unat (state2_of db)) rb0 = Some (blb, rbl) \<longrightarrow>
    map_option rep (final (decodeOp env db)) = Some (rep db))
   \<and> (bitOf env (isMatch dc) (unat (state2_of dc)) (rd dc) = Some (bmc, rcm) \<and> bmc \<noteq> 0
      \<and> bitOf env (isRep dc) (unat (state dc)) rcm = Some (brc, rcr) \<and> brc \<noteq> 0
      \<and> bitOf env (isRepG0 dc) (unat (state dc)) rcr = Some (b0c, rc0) \<and> b0c \<noteq> 0
      \<and> bitOf env (isRepG1 dc) (unat (state dc)) rc0 = Some (0, rc1) \<longrightarrow>
    map_option rep (final (decodeOp env dc))
      = Some (rep_get (rep dc) 1, rep_get (rep dc) 0, rep_get (rep dc) 2, rep_get (rep dc) 3))
   \<and> (bitOf env (isMatch dd) (unat (state2_of dd)) (rd dd) = Some (bmd, rdm) \<and> bmd \<noteq> 0
      \<and> bitOf env (isRep dd) (unat (state dd)) rdm = Some (brd, rdr) \<and> brd \<noteq> 0
      \<and> bitOf env (isRepG0 dd) (unat (state dd)) rdr = Some (b0d, rd0) \<and> b0d \<noteq> 0
      \<and> bitOf env (isRepG1 dd) (unat (state dd)) rd0 = Some (b1d, rd1) \<and> b1d \<noteq> 0
      \<and> bitOf env (isRepG2 dd) (unat (state dd)) rd1 = Some (0, rd2) \<longrightarrow>
    map_option rep (final (decodeOp env dd))
      = Some (rep_get (rep dd) 2, rep_get (rep dd) 0, rep_get (rep dd) 1, rep_get (rep dd) 3))
   \<and> (bitOf env (isMatch de) (unat (state2_of de)) (rd de) = Some (bme, rem) \<and> bme \<noteq> 0
      \<and> bitOf env (isRep de) (unat (state de)) rem = Some (bre, rer) \<and> bre \<noteq> 0
      \<and> bitOf env (isRepG0 de) (unat (state de)) rer = Some (b0e, re0) \<and> b0e \<noteq> 0
      \<and> bitOf env (isRepG1 de) (unat (state de)) re0 = Some (b1e, re1) \<and> b1e \<noteq> 0
      \<and> bitOf env (isRepG2 de) (unat (state de)) re1 = Some (b2e, re2) \<and> b2e \<noteq> 0 \<longrightarrow>
    map_option rep (final (decodeOp env de))
      = Some (rep_get (rep de) 3, rep_get (rep de) 0, rep_get (rep de) 1, rep_get (rep de) 2))"
  using after_simpleMatch [of env da bma ram rar l len' ral dist e dist' rad]
    after_rep0 [of env db bmb rbm brb rbr rb0 blb rbl]
    after_repG1(1) [of env dc bmc rcm brc rcr b0c rc0 0 rc1]
    after_repG1(2) [of env dd bmd rdm brd rdr b0d rd0 b1d rd1 rd2]
    after_repG1(3) [of env de bme rem bre rer b0e re0 b1e re1 b2e re2]
  by blast


theorem C3_rep_history_witness:
  "map_option rep (final (decodeOp script (repDecoder [Bit 1, Bit 0, LenSym 0, DistSym 5])))
     = Some (5, 1, 2, 3)
   \<and> map_option rep (final (decodeOp script (repDecoder [Bit 1, Bit 1, Bit 0, Bit 0])))
     = Some (1, 2, 3, 4)
   \<and> map_option rep (final (decodeOp script (repDecoder [Bit 1, Bit 1, Bit 1, Bit 0, LenSym 0])))
     = Some (2, 1, 3, 4)
   \<and> map_option rep (final (decodeOp script (repDecoder [Bit 1, Bit 1, Bit 1, Bit 1, Bit 0, LenSym 0])))
     = Some (3, 1, 2, 4)
   \<and> map_option rep (final (decodeOp script (repDecoder [Bit 1, Bit 1, Bit 1, Bit 1, Bit 1, LenSym 0])))
     = Some (4, 1, 2, 3)"
  using C3_rep_history [of script
      "repDecoder [Bit 1, Bit 0, LenSym 0, DistSym 5]" 1 "[Bit 0, LenSym 0, DistSym 5]"
      "[LenSym 0, DistSym 5]" 0 "()" "[DistSym 5]" 5 None "()" "[]"
      "repDecoder [Bit 1, Bit 1, Bit 0, Bit 0]" 1 "[Bit 1, Bit 0, Bit 0]" 1 "[Bit 0, Bit 0]"
      "[Bit 0]" 0 "[]"
      "repDecoder [Bit 1, Bit 1, Bit 1, Bit 0, LenSym 0]" 1 "[Bit 1, Bit 1, Bit 0, LenSym 0]" 1
      "[Bit 1, Bit 0, LenSym 0]" 1 "[Bit 0, LenSym 0]" "[LenSym 0]"
      "repDecoder [Bit 1, Bit 1, Bit 1, Bit 1, Bit 0, LenSym 0]" 1
      "[Bit 1, Bit 1, Bit 1, Bit 0, LenSym 0]" 1 "[Bit 1, Bit 1, Bit 0, LenSym 0]" 1
      "[Bit 1, Bit 0, LenSym 0]" 1 "[Bit 0, LenSym 0]" "[LenSym 0]"
      "repDecoder [Bit 1, Bit 1, Bit 1, Bit 1, Bit 1, LenSym 0]" 1
      "[Bit 1, Bit 1, Bit 1, Bit 1, LenSym 0]" 1 "[Bit 1, Bit 1, Bit 1, LenSym 0]" 1
      "[Bit 1, Bit 1, LenSym 0]" 1 "[Bit 1, LenSym 0]" 1 "[LenSym 0]"]
  by (simp add: rep_defs script_defs)

theorem C3_counterexample:
  "rep (repDecoder [Bit 1, Bit 1, Bit 1, Bit 0, LenSym 0]) = (1, 2, 3, 4)
   \<and> decodeOp script (repDecoder [Bit 1, Bit 1, Bit 1, Bit 0, LenSym 0])
     = Return (Inr (rep_op 2 3),
               (repDecoder [Bit 1, Bit 1, Bit 1, Bit 0, LenSym 0])
                 \<lparr>rd := [], rep := (2, 1, 3, 4), state := 11\<rparr>)
   \<and> rep_get (2, 1, 3, 4) 2 \<noteq> rep_get (rep (repDecoder [Bit 1, Bit 1, Bit 1, Bit 0, LenSym 0])) 1"
  by (simp add: rep_example_rep1) (simp add: repDecoder_def)

end
